theory Spec2Isabelle
  imports Main
begin

section \<open>Library functions the scanner calls\<close>

subsection \<open>Package strings\<close>

text \<open>
  Go strings are byte sequences; \<^typ>\<open>string\<close> is a list of 8-bit characters.
  \<open>strings.HasSuffix(s, suffix)\<close> is
  \<^verbatim>\<open>len(s) >= len(suffix) && s[len(s)-len(suffix):] == suffix\<close>.
\<close>

definition HasSuffix :: "string \<Rightarrow> string \<Rightarrow> bool" where
  "HasSuffix s suffix \<longleftrightarrow>
     length suffix \<le> length s \<and> drop (length s - length suffix) s = suffix"

text \<open>\<open>strings.ContainsRune(name, '/')\<close>: the rune is a single byte, so this is a byte search.\<close>

definition ContainsRune :: "string \<Rightarrow> char \<Rightarrow> bool" where
  "ContainsRune s r \<longleftrightarrow> r \<in> set s"

text \<open>
  \<open>strings.ToLower\<close> has two paths. A string whose bytes are all below
  \<open>utf8.RuneSelf\<close> (128) is lowered byte by byte: \<open>'A'..'Z'\<close> are moved by
  \<open>'a' - 'A'\<close>, every other byte is kept. Any other string goes through
  \<open>strings.Map(unicode.ToLower, s)\<close>, which is taken as a parameter.
\<close>

definition lower_byte :: "char \<Rightarrow> char" where
  "lower_byte c =
     (if (65::nat) \<le> of_char c \<and> of_char c \<le> (90::nat)
      then char_of (of_char c + (32::nat)) else c)"

definition isASCII :: "string \<Rightarrow> bool" where
  "isASCII s \<longleftrightarrow> list_all (\<lambda>c. of_char c < (128::nat)) s"

definition ToLower :: "(string \<Rightarrow> string) \<Rightarrow> string \<Rightarrow> string" where
  "ToLower unicode_lower s = (if isASCII s then map lower_byte s else unicode_lower s)"

subsection \<open>Package stringset\<close>

text \<open>
  Modelled from the spec: the package \<open>pkg/stringset\<close> of this repository is not among
  the sources. The spec calls its values sets of kinds and a skip set that names are added
  to, so a \<open>StringSet\<close> is a set of strings.
\<close>

type_synonym StringSet = "string set"

text \<open>
  Modelled from the spec: \<open>stringset.New\<close> is absent; it builds the set of the listed
  members.
\<close>

definition New :: "string list \<Rightarrow> StringSet" where
  "New xs = set xs"

text \<open>
  Modelled from the spec: the method \<open>Has\<close> is absent; it tells whether a string is a
  member of the set.
\<close>

definition Has :: "StringSet \<Rightarrow> string \<Rightarrow> bool" where
  "Has s x \<longleftrightarrow> x \<in> s"

text \<open>
  Modelled from the spec: the method \<open>Add\<close> is absent; it adds one member to the set, which
  the source mutates in place and the model returns.
\<close>

definition Add :: "StringSet \<Rightarrow> string \<Rightarrow> StringSet" where
  "Add s x = insert x s"

section \<open>Data model\<close>

text \<open>A group/version, as \<open>schema.GroupVersion\<close>.\<close>

record GroupVersion =
  Group :: string
  Version :: string

text \<open>
  A \<open>rest.RESTClient\<close>, by what the scanner reads of it: the group/version and API path
  of the configuration it was built from.
\<close>

record RESTClient =
  APIVersion :: GroupVersion
  APIPath :: string

record OwnerReference =
  Kind :: string
  RefName :: string

text \<open>
  One retrieved object (\<open>unstructured.Unstructured\<close>), by the accessors the scanner
  calls; \<open>ObjectKind\<close> is \<open>item.GetObjectKind().GroupVersionKind().Kind\<close>. A Go map
  read at a missing key gives the empty string (\<open>index\<close>).
\<close>

record Unstructured =
  ObjectKind :: string
  GetNamespace :: string
  GetName :: string
  GetLabels :: "string \<rightharpoonup> string"
  GetAnnotations :: "string \<rightharpoonup> string"
  GetOwnerReferences :: "OwnerReference list"

definition index :: "(string \<rightharpoonup> string) \<Rightarrow> string \<Rightarrow> string" where
  "index m k = (case m k of None \<Rightarrow> [] | Some v \<Rightarrow> v)"

text \<open>
  An error of a list request, by the four tests of \<open>k8s.io/apimachinery/pkg/api/errors\<close>
  that the scanner applies to it.
\<close>

record StatusError =
  IsNotFound :: bool
  IsMethodNotSupported :: bool
  IsBadRequest :: bool
  IsServiceUnavailable :: bool
  Message :: string

text \<open>
  The request built by \<open>client.Get().Namespace(namespace).Resource(name)\<close> with its optional
  \<open>labelSelector\<close> parameter, and what \<open>req.Do().Into(l)\<close> leaves behind: the error and
  the items of \<open>l\<close>.
\<close>

record Request =
  ReqClient :: RESTClient
  ReqNamespace :: string
  ReqResource :: string
  ReqParams :: "(string \<times> string) list"

record ListResult =
  Err :: "StatusError option"
  Items :: "Unstructured list"

text \<open>\<open>filepath.Join(outDir, key)\<close> is kept symbolic: the directory and the file name.\<close>

datatype path = Join string string

record ListOptions =
  LabelSelector :: string

record Version =
  SemVer :: string

text \<open>
  \<open>chartutil.Capabilities\<close>; a nil pointer or an unset field is \<open>None\<close>. The server
  group list is seen through \<open>Size()\<close> and \<open>metav1.ExtractGroupVersions\<close>.
\<close>

record Capabilities =
  KubeVersion :: "string option"
  APIVersions :: "string set option"
  TillerVersion :: "Version option"

definition NewVersionSet :: "string list \<Rightarrow> string set" where
  "NewVersionSet apiVersions = set apiVersions"

record APIGroupList =
  Size :: nat
  ExtractGroupVersions :: "string list"

record CapsDoc =
  DocCapabilities :: Capabilities
  DocNamespace :: string
  DocReleaseName :: string

record CmdResult =
  RunErr :: "string option"
  Stdout :: string

record APIResource =
  Name :: string
  Namespaced :: bool

record APIResourceList =
  ListGroupVersion :: string
  APIResources :: "APIResource list"

datatype DiscoveryError = ErrGroupDiscoveryFailed "string list" | OtherDiscoveryError string

record Config =
  Host :: string
  ConfigGroupVersion :: "GroupVersion option"
  ConfigAPIPath :: string

record Scanner =
  config :: Config
  resourceClients :: "string \<rightharpoonup> RESTClient"
  clusterWideOnly :: bool

subsection \<open>The cluster, the file system and the helm binary\<close>

text \<open>
  Everything outside the process is a parameter: what each call answers. An answer
  \<open>None\<close> of an error-valued call is Go's \<open>nil\<close> error.
\<close>

record world =
  MkdirAll :: "string \<Rightarrow> string option"
  Do :: "Request \<Rightarrow> ListResult"
  yaml_Marshal :: "Unstructured \<Rightarrow> string + string"
  WriteFile :: "path \<Rightarrow> string \<Rightarrow> string option"
  ServerVersion :: "string + string"
  ServerGroups :: "string + APIGroupList"
  Run :: "string list \<Rightarrow> CmdResult"
  json_MarshalIndent :: "CapsDoc \<Rightarrow> string + string"
  unicode_ToLower :: "string \<Rightarrow> string"
  ServerPreferredResources :: "APIResourceList list \<times> DiscoveryError option"
  RESTClientFor :: "Config \<Rightarrow> string option"

text \<open>The calls a run makes to the outside, in the order it makes them.\<close>

datatype call =
    Call_MkdirAll string
  | Call_Do Request
  | Call_WriteFile path string
  | Call_ServerVersion
  | Call_ServerGroups
  | Call_Run "string list"

text \<open>
  The errors of \<open>getCapabilities\<close> and of \<open>ListAll\<close>, one constructor for each message
  that wraps an error (\<open>server version\<close>, \<open>server groups\<close>, \<open>tiller version\<close>;
  \<open>creating output directory\<close>, \<open>listing\<close> with the resource name,
  \<open>creating YAML for\<close> with the key, \<open>reading cluster capabilities\<close>,
  \<open>marshaling capabilities to JSON\<close>) and \<open>WriteError\<close> for the error of
  \<open>ioutil.WriteFile\<close>, which is returned as it is.
\<close>

datatype caps_error =
    ServerVersionError string
  | ServerGroupsError string
  | TillerVersionError string

datatype error =
    CreatingOutputDirectory string
  | Listing string StatusError
  | CreatingYAML string string
  | WriteError string
  | ReadingClusterCapabilities caps_error
  | MarshalingCapabilities string

section \<open>ListAll\<close>

subsection \<open>The loop over the items of one resource type\<close>

definition ownedKindsToSkip :: "string \<rightharpoonup> StringSet" where
  "ownedKindsToSkip = map_of
     [(''Pod'', New [''ReplicationController'', ''ReplicaSet'', ''StatefulSet'',
                    ''DaemonSet'', ''Job'']),
      (''ReplicaSet'', New [''Deployment'']),
      (''Job'', New [''CronJob''])]"

definition item_key :: "world \<Rightarrow> Unstructured \<Rightarrow> string" where
  "item_key w item =
     ''scanned-'' @ ToLower (unicode_ToLower w) (ObjectKind item) @ ''-'' @ GetNamespace item
       @ ''-'' @ GetName item @ ''.yaml''"

text \<open>
  The loop over the owner references; \<open>True\<close> is \<open>continue outer\<close>, taken at the first
  owner whose kind is in the skip set.
\<close>

fun owner_loop :: "StringSet \<Rightarrow> OwnerReference list \<Rightarrow> bool" where
  "owner_loop skip [] = False"
| "owner_loop skip (ow # os) = (if Has skip (Kind ow) then True else owner_loop skip os)"

definition owned_skip :: "Unstructured \<Rightarrow> bool" where
  "owned_skip item =
     (case ownedKindsToSkip (ObjectKind item) of
        Some skip \<Rightarrow> owner_loop skip (GetOwnerReferences item)
      | None \<Rightarrow> False)"

definition secret_skip :: "Unstructured \<Rightarrow> bool" where
  "secret_skip item \<longleftrightarrow>
     ObjectKind item = ''Secret''
     \<and> 0 < length (index (GetAnnotations item) ''kubernetes.io/service-account.uid'')"

definition service_skip :: "Unstructured \<Rightarrow> bool" where
  "service_skip item \<longleftrightarrow>
     ObjectKind item = ''Service''
     \<and> 0 < length (index (GetLabels item) ''gluster.kubernetes.io/provisioned-for-pvc'')"

text \<open>
  One pass of the loop body for one item: the calls it makes, and \<open>Some e\<close> when it
  returns the error \<open>e\<close> from \<open>ListAll\<close>, \<open>None\<close> when the loop goes on.
\<close>

definition item_body :: "world \<Rightarrow> string \<Rightarrow> Unstructured \<Rightarrow> call list \<times> error option" where
  "item_body w outDir item =
     (let key = item_key w item in
      case yaml_Marshal w item of
        Inl err \<Rightarrow> ([], Some (CreatingYAML key err))
      | Inr y \<Rightarrow>
          if owned_skip item then ([], None)
          else if secret_skip item then ([], None)
          else if service_skip item then ([], None)
          else ([Call_WriteFile (Join outDir key) y],
                case WriteFile w (Join outDir key) y of
                  Some err \<Rightarrow> Some (WriteError err)
                | None \<Rightarrow> None))"

fun items_loop :: "world \<Rightarrow> string \<Rightarrow> Unstructured list \<Rightarrow> call list \<times> error option" where
  "items_loop w outDir [] = ([], None)"
| "items_loop w outDir (item # items) =
     (case item_body w outDir item of
        (cs, Some e) \<Rightarrow> (cs, Some e)
      | (cs, None) \<Rightarrow>
          (case items_loop w outDir items of (cs', r) \<Rightarrow> (cs @ cs', r)))"

subsection \<open>The loop over the resource types\<close>

definition list_request :: "string \<Rightarrow> ListOptions \<Rightarrow> string \<Rightarrow> RESTClient \<Rightarrow> Request" where
  "list_request namespace opts name client =
     \<lparr>ReqClient = client, ReqNamespace = namespace, ReqResource = name,
      ReqParams = (if 0 < length (LabelSelector opts)
                   then [(''labelSelector'', LabelSelector opts)] else [])\<rparr>"

text \<open>The condition of the \<open>if\<close> that returns a list error, on a non-nil error.\<close>

definition list_error_fatal :: "RESTClient \<Rightarrow> StatusError \<Rightarrow> bool" where
  "list_error_fatal client err \<longleftrightarrow>
     \<not> IsNotFound err \<and> \<not> IsMethodNotSupported err
     \<and> \<not> ((IsBadRequest err \<or> IsServiceUnavailable err)
            \<and> HasSuffix (Group (APIVersion client)) ''.clusterapi.io'')"

text \<open>
  What follows the error test for one resource type: nothing when the list is empty,
  else the loop over its items.
\<close>

definition type_items :: "world \<Rightarrow> string \<Rightarrow> ListResult \<Rightarrow> call list \<times> error option" where
  "type_items w outDir l =
     (if length (Items l) = 0 then ([], None) else items_loop w outDir (Items l))"

definition type_body ::
  "world \<Rightarrow> string \<Rightarrow> ListOptions \<Rightarrow> string \<Rightarrow> string \<times> RESTClient \<Rightarrow> call list \<times> error option"
where
  "type_body w namespace opts outDir entry =
     (case entry of (name, client) \<Rightarrow>
        let req = list_request namespace opts name client;
            l = Do w req;
            listed = (case type_items w outDir l of (cs, r) \<Rightarrow> (Call_Do req # cs, r))
        in case Err l of
             Some err \<Rightarrow>
               if list_error_fatal client err then ([Call_Do req], Some (Listing name err))
               else listed
           | None \<Rightarrow> listed)"

fun types_loop ::
  "world \<Rightarrow> string \<Rightarrow> ListOptions \<Rightarrow> string \<Rightarrow> (string \<times> RESTClient) list
     \<Rightarrow> call list \<times> error option"
where
  "types_loop w namespace opts outDir [] = ([], None)"
| "types_loop w namespace opts outDir (entry # entries) =
     (case type_body w namespace opts outDir entry of
        (cs, Some e) \<Rightarrow> (cs, Some e)
      | (cs, None) \<Rightarrow>
          (case types_loop w namespace opts outDir entries of (cs', r) \<Rightarrow> (cs @ cs', r)))"

subsection \<open>The release name\<close>

text \<open>
  \<open>regexp.MustCompile(`release=(.*?)(,|\z)`).FindStringSubmatch\<close>. The lazy group takes
  the fewest characters that let the terminator match, and \<open>.\<close> does not match a newline:
  \<open>lazy_value\<close> matches \<open>(.*?)(,|\z)\<close> at the start of a string and gives the two
  groups. The match is the leftmost one; no match is Go's \<open>nil\<close> slice, here \<open>[]\<close>.
\<close>

fun lazy_value :: "string \<Rightarrow> (string \<times> string) option" where
  "lazy_value [] = Some ([], [])"
| "lazy_value (c # cs) =
     (if c = CHR '','' then Some ([], '','')
      else if c = CHR 0x0A then None
      else map_option (\<lambda>(v, t). (c # v, t)) (lazy_value cs))"

definition match_here :: "string \<Rightarrow> string list option" where
  "match_here s =
     (if take 8 s = ''release='' then
        (case lazy_value (drop 8 s) of
           Some (v, t) \<Rightarrow> Some [''release='' @ v @ t, v, t]
         | None \<Rightarrow> None)
      else None)"

fun FindStringSubmatch :: "string \<Rightarrow> string list" where
  "FindStringSubmatch [] = []"
| "FindStringSubmatch (c # cs) =
     (case match_here (c # cs) of Some m \<Rightarrow> m | None \<Rightarrow> FindStringSubmatch cs)"

definition release_name :: "string \<Rightarrow> string" where
  "release_name selector =
     (let m = FindStringSubmatch selector in if 1 < length m then m ! 1 else [])"

subsection \<open>getCapabilities\<close>

text \<open>
  The two helm stages. The liveness stage runs \<open>helm ls\<close> and, when that fails,
  \<open>helm ls --tls\<close>. The version stage runs \<open>helm version\<close> and, when that fails, the same
  with \<open>--tls\<close>; both write to the one buffer \<open>out\<close>.
\<close>

definition helm_ls :: "world \<Rightarrow> call list \<times> bool" where
  "helm_ls w =
     (case RunErr (Run w [''helm'', ''ls'']) of
        None \<Rightarrow> ([Call_Run [''helm'', ''ls'']], True)
      | Some err \<Rightarrow>
          ([Call_Run [''helm'', ''ls''], Call_Run [''helm'', ''ls'', ''--tls'']],
           RunErr (Run w [''helm'', ''ls'', ''--tls'']) = None))"

definition version_args :: "string list" where
  "version_args = [''helm'', ''version'', ''-s'', ''--template'', ''{{.Server.SemVer}}'']"

definition version_tls_args :: "string list" where
  "version_tls_args =
     [''helm'', ''version'', ''--tls'', ''-s'', ''--template'', ''{{.Server.SemVer}}'']"

definition helm_version :: "world \<Rightarrow> call list \<times> (string + string)" where
  "helm_version w =
     (let r = Run w version_args in
      case RunErr r of
        None \<Rightarrow> ([Call_Run version_args], Inr (Stdout r))
      | Some err \<Rightarrow>
          (let r' = Run w version_tls_args in
           ([Call_Run version_args, Call_Run version_tls_args],
            case RunErr r' of
              None \<Rightarrow> Inr (Stdout r @ Stdout r')
            | Some err' \<Rightarrow> Inl err')))"

definition helm_stage :: "world \<Rightarrow> Capabilities \<Rightarrow> call list \<times> Capabilities \<times> caps_error option" where
  "helm_stage w c =
     (case helm_ls w of
        (cs, False) \<Rightarrow> (cs, c, None)
      | (cs, True) \<Rightarrow>
          (case helm_version w of
             (cs', Inl err) \<Rightarrow> (cs @ cs', c, Some (TillerVersionError err))
           | (cs', Inr out) \<Rightarrow>
               (cs @ cs', c\<lparr>TillerVersion := Some \<lparr>SemVer = out\<rparr>\<rparr>, None)))"

definition getCapabilities :: "world \<Rightarrow> call list \<times> Capabilities \<times> caps_error option" where
  "getCapabilities w =
     (let c = \<lparr>KubeVersion = None, APIVersions = None, TillerVersion = None\<rparr> in
      case ServerVersion w of
        Inl err \<Rightarrow> ([Call_ServerVersion], c, Some (ServerVersionError err))
      | Inr sv \<Rightarrow>
          (let c = c\<lparr>KubeVersion := Some sv\<rparr> in
           case ServerGroups w of
             Inl err \<Rightarrow>
               ([Call_ServerVersion, Call_ServerGroups], c, Some (ServerGroupsError err))
           | Inr groups \<Rightarrow>
               if Size groups = 0 then ([Call_ServerVersion, Call_ServerGroups], c, None)
               else
                 (case helm_stage w (c\<lparr>APIVersions := Some (NewVersionSet (ExtractGroupVersions groups))\<rparr>) of
                    (cs, r) \<Rightarrow> (Call_ServerVersion # Call_ServerGroups # cs, r))))"

subsection \<open>ListAll\<close>

text \<open>
  The part of \<open>ListAll\<close> after the loops: the capabilities, the release name, and the
  file \<open>caps.json\<close>.
\<close>

definition caps_stage ::
  "world \<Rightarrow> string \<Rightarrow> ListOptions \<Rightarrow> string \<Rightarrow> call list \<times> error option"
where
  "caps_stage w namespace opts outDir =
     (case getCapabilities w of
        (cs, c, Some err) \<Rightarrow> (cs, Some (ReadingClusterCapabilities err))
      | (cs, c, None) \<Rightarrow>
          (let release = release_name (LabelSelector opts);
               caps = \<lparr>DocCapabilities = c, DocNamespace = namespace, DocReleaseName = release\<rparr>
           in case json_MarshalIndent w caps of
                Inl err \<Rightarrow> (cs, Some (MarshalingCapabilities err))
              | Inr b \<Rightarrow>
                  (cs @ [Call_WriteFile (Join outDir ''caps.json'') b],
                   map_option WriteError (WriteFile w (Join outDir ''caps.json'') b))))"

text \<open>
  Go visits the entries of the map \<open>s.resourceClients\<close> in an order it does not fix;
  \<open>order\<close> is the order of the names in this run.
\<close>

definition range_entries :: "(string \<rightharpoonup> RESTClient) \<Rightarrow> string list \<Rightarrow> (string \<times> RESTClient) list" where
  "range_entries m order = List.map_filter (\<lambda>name. map_option (Pair name) (m name)) order"

definition ListAll ::
  "world \<Rightarrow> Scanner \<Rightarrow> string list \<Rightarrow> string \<Rightarrow> ListOptions \<Rightarrow> string \<Rightarrow> call list \<times> error option"
where
  "ListAll w s order namespace opts outDir =
     (case MkdirAll w outDir of
        Some err \<Rightarrow> ([Call_MkdirAll outDir], Some (CreatingOutputDirectory err))
      | None \<Rightarrow>
          (case types_loop w namespace opts outDir (range_entries (resourceClients s) order) of
             (cs, Some e) \<Rightarrow> (Call_MkdirAll outDir # cs, Some e)
           | (cs, None) \<Rightarrow>
               (case caps_stage w namespace opts outDir of
                  (cs', r) \<Rightarrow> (Call_MkdirAll outDir # cs @ cs', r))))"

section \<open>getAllResources\<close>

text \<open>
  \<open>schema.ParseGroupVersion\<close>: the empty string and \<open>/\<close> give the empty group/version, a
  string with no slash is a version of the core group, one slash separates group and
  version, more are an error.
\<close>

definition ParseGroupVersion :: "string \<Rightarrow> string + GroupVersion" where
  "ParseGroupVersion gv =
     (if length gv = 0 \<or> gv = ''/'' then Inr \<lparr>Group = [], Version = []\<rparr>
      else if count_list gv CHR ''/'' = 0 then Inr \<lparr>Group = [], Version = gv\<rparr>
      else if count_list gv CHR ''/'' = 1 then
        Inr \<lparr>Group = takeWhile (\<lambda>c. c \<noteq> CHR ''/'') gv,
             Version = drop 1 (dropWhile (\<lambda>c. c \<noteq> CHR ''/'') gv)\<rparr>
      else Inl (''unexpected GroupVersion string: '' @ gv))"

definition skip_init :: StringSet where
  "skip_init = New [''componentstatuses'', ''controllerrevisions'', ''events'', ''endpoints'',
                    ''packagemanifests'']"

text \<open>The loop over the resources of one group/version, on the skip set and the catalog.\<close>

fun resources_loop ::
  "bool \<Rightarrow> RESTClient \<Rightarrow> APIResource list \<Rightarrow> StringSet \<times> (string \<rightharpoonup> RESTClient)
     \<Rightarrow> StringSet \<times> (string \<rightharpoonup> RESTClient)"
where
  "resources_loop cwo c [] st = st"
| "resources_loop cwo c (resource # rs) (skip, resources) =
     (let name = Name resource in
      if ContainsRune name CHR ''/'' \<or> Has skip name then resources_loop cwo c rs (skip, resources)
      else if cwo \<and> Namespaced resource then resources_loop cwo c rs (skip, resources)
      else resources_loop cwo c rs (Add skip name, resources(name \<mapsto> c)))"

text \<open>
  The client of one group/version: \<open>None\<close> when the group/version does not parse or
  \<open>rest.RESTClientFor\<close> fails, and the loop goes to the next group/version.
\<close>

definition group_client :: "world \<Rightarrow> Scanner \<Rightarrow> APIResourceList \<Rightarrow> RESTClient option" where
  "group_client w s v =
     (case ParseGroupVersion (ListGroupVersion v) of
        Inl err \<Rightarrow> None
      | Inr gv \<Rightarrow>
          (let cfg = (config s)\<lparr>ConfigGroupVersion := Some gv,
                                ConfigAPIPath := (if length (Group gv) = 0 then ''/api'' else ''/apis'')\<rparr>
           in case RESTClientFor w cfg of
                Some err \<Rightarrow> None
              | None \<Rightarrow> Some \<lparr>APIVersion = gv, APIPath = ConfigAPIPath cfg\<rparr>))"

fun groups_loop ::
  "world \<Rightarrow> Scanner \<Rightarrow> APIResourceList list \<Rightarrow> StringSet \<times> (string \<rightharpoonup> RESTClient)
     \<Rightarrow> StringSet \<times> (string \<rightharpoonup> RESTClient)"
where
  "groups_loop w s [] st = st"
| "groups_loop w s (v # vs) st =
     (case group_client w s v of
        None \<Rightarrow> groups_loop w s vs st
      | Some c \<Rightarrow> groups_loop w s vs (resources_loop (clusterWideOnly s) c (APIResources v) st))"

text \<open>
  The \<open>err\<close> that the \<open>if\<close> statement declares, by the type assertion
  \<open>err.(*discovery.ErrGroupDiscoveryFailed)\<close>, is the one its \<open>else if\<close> branch tests as
  well: it is nil for every error of another type. What the function prints and logs, and
  the two registrations into the shared scheme, are left out.
\<close>

definition asserted_err :: "DiscoveryError option \<Rightarrow> string list option" where
  "asserted_err err =
     (case err of Some (ErrGroupDiscoveryFailed groups) \<Rightarrow> Some groups | _ \<Rightarrow> None)"

definition getAllResources :: "world \<Rightarrow> Scanner \<Rightarrow> string + (string \<rightharpoonup> RESTClient)" where
  "getAllResources w s =
     (case ServerPreferredResources w of (vs, err) \<Rightarrow>
        let err' = asserted_err err;
            ok = (err' \<noteq> None);
            resources = snd (groups_loop w s vs (skip_init, Map.empty))
        in if ok \<and> err' \<noteq> None then Inr resources
           else if err' \<noteq> None then Inl ''fetching server API resources''
           else Inr resources)"

section \<open>The catalog, as the specification describes it\<close>

text \<open>
  The resources that the two loops of \<open>getAllResources\<close> visit, in the order they visit
  them, each with the client of its group/version. A resource can enter the catalog when
  its name has no path separator and is not in the seeded skip set, and when it is not a
  namespaced resource in cluster-wide-only mode. \<open>first_claim\<close> is the first visited
  resource of a name that can enter the catalog; \<open>first_seen\<close> is the client of the first
  visited resource of a name, whether or not it can enter.
\<close>

definition discoveries :: "world \<Rightarrow> Scanner \<Rightarrow> APIResourceList list \<Rightarrow> (RESTClient \<times> APIResource) list" where
  "discoveries w s vs =
     concat (map (\<lambda>v. case group_client w s v of
                           None \<Rightarrow> []
                         | Some c \<Rightarrow> map (Pair c) (APIResources v)) vs)"

definition eligible :: "bool \<Rightarrow> APIResource \<Rightarrow> bool" where
  "eligible cwo r \<longleftrightarrow>
     CHR ''/'' \<notin> set (Name r) \<and> Name r \<notin> skip_init \<and> \<not> (cwo \<and> Namespaced r)"

definition first_claim ::
  "world \<Rightarrow> Scanner \<Rightarrow> APIResourceList list \<Rightarrow> string \<Rightarrow> (RESTClient \<times> APIResource) option"
where
  "first_claim w s vs name =
     find (\<lambda>(c, r). Name r = name \<and> eligible (clusterWideOnly s) r) (discoveries w s vs)"

definition first_seen :: "world \<Rightarrow> Scanner \<Rightarrow> APIResourceList list \<Rightarrow> string \<Rightarrow> RESTClient option" where
  "first_seen w s vs name =
     map_option fst (find (\<lambda>(c, r). Name r = name) (discoveries w s vs))"

text \<open>
  One pass of the body of the inner loop of \<open>getAllResources\<close>, on a visited resource and
  its client; the two loops are this step folded over the visited resources.
\<close>

definition claim_step ::
  "bool \<Rightarrow> RESTClient \<times> APIResource \<Rightarrow> StringSet \<times> (string \<rightharpoonup> RESTClient)
     \<Rightarrow> StringSet \<times> (string \<rightharpoonup> RESTClient)"
where
  "claim_step cwo d st =
     (case d of (c, r) \<Rightarrow> case st of (skip, resources) \<Rightarrow>
        if CHR ''/'' \<in> set (Name r) \<or> Name r \<in> skip \<or> (cwo \<and> Namespaced r) then (skip, resources)
        else (insert (Name r) skip, resources(Name r \<mapsto> c)))"

section \<open>An example cluster\<close>

text \<open>
  A cluster in which every call succeeds: the list requests return no objects, the helm
  binary answers, and discovery finds nothing. The examples below change one answer at a
  time.
\<close>

definition example_world :: world where
  "example_world =
     \<lparr>MkdirAll = (\<lambda>dir. None),
      Do = (\<lambda>req. \<lparr>Err = None, Items = []\<rparr>),
      yaml_Marshal = (\<lambda>item. Inr (''name: '' @ GetName item)),
      WriteFile = (\<lambda>p b. None),
      ServerVersion = Inr ''v1.11.0'',
      ServerGroups = Inr \<lparr>Size = 40, ExtractGroupVersions = [''v1'', ''apps/v1'']\<rparr>,
      Run = (\<lambda>args. \<lparr>RunErr = None, Stdout = ''v2.9.1''\<rparr>),
      json_MarshalIndent = (\<lambda>doc. Inr (''release '' @ DocReleaseName doc)),
      unicode_ToLower = (\<lambda>s. s),
      ServerPreferredResources = ([], None),
      RESTClientFor = (\<lambda>cfg. None)\<rparr>"

definition owned_pod :: Unstructured where
  "owned_pod =
     \<lparr>ObjectKind = ''Pod'', GetNamespace = ''default'', GetName = ''web-1'',
      GetLabels = Map.empty, GetAnnotations = Map.empty,
      GetOwnerReferences = [\<lparr>Kind = ''ReplicaSet'', RefName = ''web''\<rparr>]\<rparr>"

definition token_secret :: Unstructured where
  "token_secret =
     \<lparr>ObjectKind = ''Secret'', GetNamespace = ''default'', GetName = ''default-token'',
      GetLabels = Map.empty,
      GetAnnotations = [''kubernetes.io/service-account.uid'' \<mapsto> ''4f1c''],
      GetOwnerReferences = []\<rparr>"

definition gluster_service :: Unstructured where
  "gluster_service =
     \<lparr>ObjectKind = ''Service'', GetNamespace = ''default'', GetName = ''glusterfs-dynamic-claim'',
      GetLabels = [''gluster.kubernetes.io/provisioned-for-pvc'' \<mapsto> ''claim''],
      GetAnnotations = Map.empty,
      GetOwnerReferences = []\<rparr>"

definition core_client :: RESTClient where
  "core_client = \<lparr>APIVersion = \<lparr>Group = [], Version = ''v1''\<rparr>, APIPath = ''/api''\<rparr>"

definition mcm_client :: RESTClient where
  "mcm_client =
     \<lparr>APIVersion = \<lparr>Group = ''mcm.clusterapi.io'', Version = ''v1alpha1''\<rparr>, APIPath = ''/apis''\<rparr>"

definition example_scanner :: Scanner where
  "example_scanner =
     \<lparr>config = \<lparr>Host = ''https://cluster.example'', ConfigGroupVersion = None, ConfigAPIPath = []\<rparr>,
      resourceClients = [''pods'' \<mapsto> core_client],
      clusterWideOnly = False\<rparr>"

definition example_opts :: ListOptions where
  "example_opts = \<lparr>LabelSelector = ''release=myapp,tier=web''\<rparr>"

text \<open>
  A pod without owner, and a cluster whose one list holds the owned pod and the orphan,
  the token secret with and without its annotation, and the provisioned service with and
  without its label.
\<close>

definition orphan_pod :: Unstructured where
  "orphan_pod = owned_pod\<lparr>GetName := ''web-2'', GetOwnerReferences := []\<rparr>"

definition mixed_world :: world where
  "mixed_world =
     example_world\<lparr>Do := (\<lambda>req. \<lparr>Err = None,
        Items = [owned_pod, orphan_pod, token_secret, token_secret\<lparr>GetAnnotations := Map.empty\<rparr>,
                 gluster_service, gluster_service\<lparr>GetLabels := Map.empty\<rparr>]\<rparr>)\<rparr>"

text \<open>
  Two list errors: one that none of the four tests recognises, and a service-unavailable
  error. Two helm binaries: one that fails on every invocation, as an absent binary does,
  and one whose \<open>helm ls\<close> succeeds while every other invocation fails.
\<close>

definition forbidden :: StatusError where
  "forbidden = \<lparr>IsNotFound = False, IsMethodNotSupported = False, IsBadRequest = False,
                IsServiceUnavailable = False, Message = ''forbidden''\<rparr>"

definition unavailable :: StatusError where
  "unavailable = \<lparr>IsNotFound = False, IsMethodNotSupported = False, IsBadRequest = False,
                  IsServiceUnavailable = True, Message = ''service unavailable''\<rparr>"

definition helm_down :: "string list \<Rightarrow> CmdResult" where
  "helm_down args = \<lparr>RunErr = Some ''exit status 1'', Stdout = []\<rparr>"

definition tiller_down :: "string list \<Rightarrow> CmdResult" where
  "tiller_down args =
     (if args = [''helm'', ''ls''] then \<lparr>RunErr = None, Stdout = []\<rparr>
      else \<lparr>RunErr = Some ''exit status 1'', Stdout = []\<rparr>)"

text \<open>
  Two groups that both have a resource \<open>foos\<close>, namespaced in the first group and
  cluster-wide in the second, and their clients.
\<close>

definition two_groups :: "APIResourceList list" where
  "two_groups =
     [\<lparr>ListGroupVersion = ''a.example.com/v1'',
       APIResources = [\<lparr>Name = ''foos'', Namespaced = True\<rparr>,
                       \<lparr>Name = ''foos/status'', Namespaced = True\<rparr>,
                       \<lparr>Name = ''events'', Namespaced = False\<rparr>,
                       \<lparr>Name = ''bars'', Namespaced = False\<rparr>]\<rparr>,
      \<lparr>ListGroupVersion = ''b.example.com/v1'',
       APIResources = [\<lparr>Name = ''foos'', Namespaced = False\<rparr>,
                       \<lparr>Name = ''bars'', Namespaced = False\<rparr>]\<rparr>]"

definition group_a :: RESTClient where
  "group_a = \<lparr>APIVersion = \<lparr>Group = ''a.example.com'', Version = ''v1''\<rparr>, APIPath = ''/apis''\<rparr>"

definition group_b :: RESTClient where
  "group_b = \<lparr>APIVersion = \<lparr>Group = ''b.example.com'', Version = ''v1''\<rparr>, APIPath = ''/apis''\<rparr>"

section \<open>The loop body for one item\<close>

lemma owner_loop_iff: "owner_loop skip os \<longleftrightarrow> (\<exists>ow\<in>set os. Kind ow \<in> skip)"
  by (induction os) (auto simp: Has_def)

lemma ownedKindsToSkip_dom:
  "ownedKindsToSkip kind = Some skip \<Longrightarrow> kind = ''Pod'' \<or> kind = ''ReplicaSet'' \<or> kind = ''Job''"
  by (auto simp: ownedKindsToSkip_def split: if_splits)

lemma owned_kind_not_secret_service:
  assumes "ownedKindsToSkip (ObjectKind item) = Some skip"
  shows "\<not> secret_skip item" and "\<not> service_skip item"
  using ownedKindsToSkip_dom [OF assms] by (auto simp: secret_skip_def service_skip_def)

lemma secret_not_owned_service:
  assumes "ObjectKind item = ''Secret''"
  shows "\<not> owned_skip item" and "\<not> service_skip item"
  using assms by (simp_all add: owned_skip_def ownedKindsToSkip_def service_skip_def)

lemma item_body_marshal_error:
  "yaml_Marshal w item = Inl err \<Longrightarrow>
     item_body w outDir item = ([], Some (CreatingYAML (item_key w item) err))"
  by (simp add: item_body_def Let_def)

lemma item_body_skipped:
  "owned_skip item \<or> secret_skip item \<or> service_skip item \<Longrightarrow> fst (item_body w outDir item) = []"
  by (auto simp: item_body_def Let_def split: sum.splits)

lemma item_body_written:
  "yaml_Marshal w item = Inr y \<Longrightarrow> \<not> owned_skip item \<Longrightarrow> \<not> secret_skip item
     \<Longrightarrow> \<not> service_skip item \<Longrightarrow>
   item_body w outDir item =
     ([Call_WriteFile (Join outDir (item_key w item)) y],
      map_option WriteError (WriteFile w (Join outDir (item_key w item)) y))"
  by (auto simp: item_body_def Let_def split: option.splits)

lemma item_body_calls:
  "c \<in> set (fst (item_body w outDir item)) \<Longrightarrow>
     \<exists>y. yaml_Marshal w item = Inr y \<and> c = Call_WriteFile (Join outDir (item_key w item)) y
       \<and> \<not> owned_skip item \<and> \<not> secret_skip item \<and> \<not> service_skip item"
  by (auto simp: item_body_def Let_def split: sum.splits if_splits)

section \<open>The loops\<close>

lemma items_loop_append:
  "snd (items_loop w outDir xs) = None \<Longrightarrow>
     items_loop w outDir (xs @ ys) =
       (fst (items_loop w outDir xs) @ fst (items_loop w outDir ys), snd (items_loop w outDir ys))"
  by (induction xs) (auto split: prod.splits option.splits)

lemma items_loop_continue:
  "(\<forall>i\<in>set xs. snd (item_body w outDir i) = None) \<Longrightarrow> snd (items_loop w outDir xs) = None"
  by (induction xs) (auto split: prod.splits option.splits)

lemma items_loop_stop:
  assumes "\<forall>i\<in>set before. snd (item_body w outDir i) = None"
    and "item_body w outDir item = (cs, Some e)"
  shows "items_loop w outDir (before @ item # after) =
           (fst (items_loop w outDir before) @ cs, Some e)"
  using assms by (simp add: items_loop_append items_loop_continue)

lemma items_loop_calls:
  "c \<in> set (fst (items_loop w outDir items)) \<Longrightarrow>
     \<exists>item\<in>set items. c \<in> set (fst (item_body w outDir item))"
  by (induction items) (auto split: prod.splits option.splits)

lemma items_loop_complete:
  "snd (items_loop w outDir items) = None \<Longrightarrow> item \<in> set items \<Longrightarrow>
     set (fst (item_body w outDir item)) \<subseteq> set (fst (items_loop w outDir items))"
  by (induction items) (auto split: prod.splits option.splits)

lemma types_loop_append:
  "snd (types_loop w ns opts outDir xs) = None \<Longrightarrow>
     types_loop w ns opts outDir (xs @ ys) =
       (fst (types_loop w ns opts outDir xs) @ fst (types_loop w ns opts outDir ys),
        snd (types_loop w ns opts outDir ys))"
  by (induction xs) (auto split: prod.splits option.splits)

lemma types_loop_continue:
  "(\<forall>entry\<in>set xs. snd (type_body w ns opts outDir entry) = None) \<Longrightarrow>
     snd (types_loop w ns opts outDir xs) = None"
  by (induction xs) (auto split: prod.splits option.splits)

lemma types_loop_stop:
  assumes "\<forall>entry\<in>set pre. snd (type_body w ns opts outDir entry) = None"
    and "type_body w ns opts outDir entry = (cs, Some e)"
  shows "types_loop w ns opts outDir (pre @ entry # post) =
           (fst (types_loop w ns opts outDir pre) @ cs, Some e)"
  using assms by (simp add: types_loop_append types_loop_continue)

lemma type_items_calls:
  "c \<in> set (fst (type_items w outDir l)) \<Longrightarrow>
     \<exists>item\<in>set (Items l). c \<in> set (fst (item_body w outDir item))"
  by (cases "length (Items l) = 0") (auto simp: type_items_def dest: items_loop_calls)

lemma type_body_calls:
  assumes "c \<in> set (fst (type_body w ns opts outDir (name, client)))"
  shows "c = Call_Do (list_request ns opts name client)
     \<or> (\<exists>item\<in>set (Items (Do w (list_request ns opts name client))).
           c \<in> set (fst (item_body w outDir item)))"
proof -
  from assms have "c = Call_Do (list_request ns opts name client)
      \<or> c \<in> set (fst (type_items w outDir (Do w (list_request ns opts name client))))"
    by (auto simp: type_body_def Let_def split: prod.splits if_splits option.splits)
  then show ?thesis by (auto dest: type_items_calls)
qed

lemma types_loop_calls:
  "c \<in> set (fst (types_loop w ns opts outDir entries)) \<Longrightarrow>
     \<exists>entry\<in>set entries. c \<in> set (fst (type_body w ns opts outDir entry))"
  by (induction entries) (auto split: prod.splits option.splits)

text \<open>
  Every call of the enumeration is a list request or the write of a retrieved item that
  passed the three filters, under its key and with its YAML.
\<close>

lemma enumeration_calls:
  assumes "c \<in> set (fst (types_loop w ns opts outDir entries))"
  shows "(\<exists>req. c = Call_Do req)
     \<or> (\<exists>name client item y. (name, client) \<in> set entries
          \<and> item \<in> set (Items (Do w (list_request ns opts name client)))
          \<and> yaml_Marshal w item = Inr y
          \<and> \<not> owned_skip item \<and> \<not> secret_skip item \<and> \<not> service_skip item
          \<and> c = Call_WriteFile (Join outDir (item_key w item)) y)"
proof -
  from types_loop_calls [OF assms] obtain name client
    where e: "(name, client) \<in> set entries"
      and c: "c \<in> set (fst (type_body w ns opts outDir (name, client)))"
    by auto
  from type_body_calls [OF c] show ?thesis
  proof
    assume "c = Call_Do (list_request ns opts name client)"
    then show ?thesis by blast
  next
    assume "\<exists>item\<in>set (Items (Do w (list_request ns opts name client))).
              c \<in> set (fst (item_body w outDir item))"
    then obtain item where i: "item \<in> set (Items (Do w (list_request ns opts name client)))"
      and b: "c \<in> set (fst (item_body w outDir item))" by blast
    from item_body_calls [OF b] e i show ?thesis by blast
  qed
qed

text \<open>
  In an enumeration that ends without an error, the loop body has run for every retrieved
  item: its calls are among the calls of the run.
\<close>

lemma type_body_complete:
  assumes "snd (type_body w ns opts outDir (name, client)) = None"
    and "item \<in> set (Items (Do w (list_request ns opts name client)))"
  shows "set (fst (item_body w outDir item)) \<subseteq> set (fst (type_body w ns opts outDir (name, client)))"
  using assms items_loop_complete [of w outDir "Items (Do w (list_request ns opts name client))" item]
  by (auto simp: type_body_def type_items_def Let_def split: prod.splits if_splits option.splits)

lemma types_loop_complete:
  "snd (types_loop w ns opts outDir entries) = None \<Longrightarrow> entry \<in> set entries \<Longrightarrow>
     set (fst (type_body w ns opts outDir entry)) \<subseteq> set (fst (types_loop w ns opts outDir entries))
     \<and> snd (type_body w ns opts outDir entry) = None"
  by (induction entries) (auto split: prod.splits option.splits)

lemma enumeration_complete:
  assumes "snd (types_loop w ns opts outDir entries) = None"
    and "(name, client) \<in> set entries"
    and "item \<in> set (Items (Do w (list_request ns opts name client)))"
  shows "set (fst (item_body w outDir item)) \<subseteq> set (fst (types_loop w ns opts outDir entries))"
  using types_loop_complete [OF assms(1,2)] type_body_complete [OF _ assms(3)] by blast

section \<open>Errors of the enumeration\<close>

lemma ListAll_mkdir_error:
  "MkdirAll w outDir = Some err \<Longrightarrow>
     ListAll w s order ns opts outDir = ([Call_MkdirAll outDir], Some (CreatingOutputDirectory err))"
  by (simp add: ListAll_def)

lemma ListAll_enumeration_error:
  "MkdirAll w outDir = None \<Longrightarrow>
   types_loop w ns opts outDir (range_entries (resourceClients s) order) = (cs, Some e) \<Longrightarrow>
     ListAll w s order ns opts outDir = (Call_MkdirAll outDir # cs, Some e)"
  by (simp add: ListAll_def)

lemma ListAll_enumerated:
  "MkdirAll w outDir = None \<Longrightarrow>
   snd (types_loop w ns opts outDir (range_entries (resourceClients s) order)) = None \<Longrightarrow>
     ListAll w s order ns opts outDir =
       (Call_MkdirAll outDir
          # fst (types_loop w ns opts outDir (range_entries (resourceClients s) order))
          @ fst (caps_stage w ns opts outDir),
        snd (caps_stage w ns opts outDir))"
  by (auto simp: ListAll_def split: prod.splits option.splits)

lemma type_items_empty: "Items l = [] \<Longrightarrow> type_items w outDir l = ([], None)"
  by (simp add: type_items_def)

lemma type_items_loop: "type_items w outDir l = items_loop w outDir (Items l)"
  by (cases "Items l") (simp_all add: type_items_def)

lemma type_body_fatal:
  "Err (Do w (list_request ns opts name client)) = Some err \<Longrightarrow> list_error_fatal client err \<Longrightarrow>
     type_body w ns opts outDir (name, client) =
       ([Call_Do (list_request ns opts name client)], Some (Listing name err))"
  by (simp add: type_body_def Let_def)

lemma type_body_tolerated:
  "Err (Do w (list_request ns opts name client)) = Some err \<Longrightarrow> \<not> list_error_fatal client err \<Longrightarrow>
     type_body w ns opts outDir (name, client) =
       (Call_Do (list_request ns opts name client)
          # fst (items_loop w outDir (Items (Do w (list_request ns opts name client)))),
        snd (items_loop w outDir (Items (Do w (list_request ns opts name client)))))"
  by (simp add: type_body_def Let_def type_items_loop split: prod.splits)

lemma type_body_listed:
  "Err (Do w (list_request ns opts name client)) = None \<Longrightarrow>
     type_body w ns opts outDir (name, client) =
       (Call_Do (list_request ns opts name client)
          # fst (items_loop w outDir (Items (Do w (list_request ns opts name client)))),
        snd (items_loop w outDir (Items (Do w (list_request ns opts name client)))))"
  by (simp add: type_body_def Let_def type_items_loop split: prod.splits)

lemma item_body_error:
  "snd (item_body w outDir item) = Some e \<Longrightarrow>
     (\<exists>err. e = CreatingYAML (item_key w item) err) \<or> (\<exists>err. e = WriteError err)"
  by (auto simp: item_body_def Let_def split: sum.splits if_splits option.splits)

lemma items_loop_error:
  "snd (items_loop w outDir items) = Some e \<Longrightarrow>
     (\<exists>key err. e = CreatingYAML key err) \<or> (\<exists>err. e = WriteError err)"
proof (induction items)
  case Nil
  then show ?case by simp
next
  case (Cons item items)
  show ?case
  proof (cases "snd (item_body w outDir item)")
    case None
    with Cons show ?thesis by (auto split: prod.splits option.splits)
  next
    case (Some e')
    with Cons.prems have "e' = e" by (auto split: prod.splits option.splits)
    with Some item_body_error [of w outDir item e] show ?thesis by blast
  qed
qed

section \<open>The capabilities\<close>

lemma item_key_not_caps: "item_key w item \<noteq> ''caps.json''"
  by (simp add: item_key_def)

lemma enumeration_no_capabilities:
  assumes "c \<in> set (fst (types_loop w ns opts outDir entries))"
  shows "c \<noteq> Call_ServerVersion" and "c \<noteq> Call_WriteFile (Join outDir ''caps.json'') b"
  using enumeration_calls [OF assms] by (auto simp: item_key_def)

lemma helm_ls_calls: "Call_ServerVersion \<notin> set (fst (helm_ls w))"
  by (simp add: helm_ls_def split: option.splits)

lemma helm_version_calls: "Call_ServerVersion \<notin> set (fst (helm_version w))"
  by (simp add: helm_version_def Let_def split: option.splits)

lemma helm_stage_calls: "helm_stage w c = (cs, r) \<Longrightarrow> Call_ServerVersion \<notin> set cs"
  using helm_ls_calls [of w] helm_version_calls [of w]
  by (auto simp: helm_stage_def split: prod.splits bool.splits sum.splits)

lemma getCapabilities_calls:
  "\<exists>cs. fst (getCapabilities w) = Call_ServerVersion # cs \<and> Call_ServerVersion \<notin> set cs"
  by (auto simp: getCapabilities_def Let_def split: sum.splits prod.splits
           dest: helm_stage_calls)

lemma caps_stage_calls:
  "\<exists>cs. fst (caps_stage w ns opts outDir) = Call_ServerVersion # cs \<and> Call_ServerVersion \<notin> set cs"
proof -
  from getCapabilities_calls [of w] obtain cs
    where g: "fst (getCapabilities w) = Call_ServerVersion # cs" "Call_ServerVersion \<notin> set cs"
    by blast
  obtain c r where gc: "getCapabilities w = (Call_ServerVersion # cs, c, r)"
    using g(1) by (cases "getCapabilities w") auto
  show ?thesis using g(2)
    by (cases r) (auto simp: caps_stage_def gc Let_def split: sum.splits)
qed

lemma caps_stage_written:
  assumes "snd (snd (getCapabilities w)) = None"
    and "json_MarshalIndent w \<lparr>DocCapabilities = fst (snd (getCapabilities w)), DocNamespace = ns,
            DocReleaseName = release_name (LabelSelector opts)\<rparr> = Inr b"
  shows "caps_stage w ns opts outDir =
           (fst (getCapabilities w) @ [Call_WriteFile (Join outDir ''caps.json'') b],
            map_option WriteError (WriteFile w (Join outDir ''caps.json'') b))"
  using assms by (cases "getCapabilities w") (auto simp: caps_stage_def Let_def)

lemma caps_stage_error:
  assumes "snd (snd (getCapabilities w)) = Some err"
  shows "caps_stage w ns opts outDir =
           (fst (getCapabilities w), Some (ReadingClusterCapabilities err))"
  using assms by (cases "getCapabilities w") (auto simp: caps_stage_def Let_def)

lemma helm_stage_no_write:
  "helm_stage w c = (cs, r) \<Longrightarrow> Call_WriteFile p b \<notin> set cs"
  by (auto simp: helm_stage_def helm_ls_def helm_version_def Let_def
           split: prod.splits bool.splits sum.splits option.splits)

lemma getCapabilities_no_write: "Call_WriteFile p b \<notin> set (fst (getCapabilities w))"
  by (auto simp: getCapabilities_def Let_def split: sum.splits prod.splits
           dest: helm_stage_no_write)

lemma helm_ls_dead:
  "RunErr (Run w [''helm'', ''ls'']) \<noteq> None \<Longrightarrow> RunErr (Run w [''helm'', ''ls'', ''--tls'']) \<noteq> None
     \<Longrightarrow> snd (helm_ls w) = False"
  by (auto simp: helm_ls_def split: option.splits)

lemma helm_ls_live:
  "RunErr (Run w [''helm'', ''ls'']) = None \<or> RunErr (Run w [''helm'', ''ls'', ''--tls'']) = None
     \<Longrightarrow> snd (helm_ls w) = True"
  by (auto simp: helm_ls_def split: option.splits)

lemma helm_version_failed:
  "RunErr (Run w version_args) \<noteq> None \<Longrightarrow> RunErr (Run w version_tls_args) = Some e
     \<Longrightarrow> snd (helm_version w) = Inl e"
  by (auto simp: helm_version_def Let_def split: option.splits)

lemma helm_stage_dead:
  "snd (helm_ls w) = False \<Longrightarrow> snd (helm_stage w c) = (c, None)"
  by (auto simp: helm_stage_def split: prod.splits bool.splits)

lemma helm_stage_failed:
  "snd (helm_ls w) = True \<Longrightarrow> snd (helm_version w) = Inl e
     \<Longrightarrow> snd (helm_stage w c) = (c, Some (TillerVersionError e))"
  by (auto simp: helm_stage_def split: prod.splits bool.splits sum.splits)

lemma getCapabilities_helm:
  "ServerVersion w = Inr sv \<Longrightarrow> ServerGroups w = Inr groups \<Longrightarrow> Size groups \<noteq> 0 \<Longrightarrow>
     snd (getCapabilities w) =
       snd (helm_stage w \<lparr>KubeVersion = Some sv, APIVersions = Some (NewVersionSet (ExtractGroupVersions groups)),
                           TillerVersion = None\<rparr>)"
  by (simp add: getCapabilities_def Let_def split: prod.splits)

lemma caps_stage_result:
  assumes "snd (getCapabilities w) = (c, None)"
  shows "snd (caps_stage w ns opts outDir) =
           (case json_MarshalIndent w \<lparr>DocCapabilities = c, DocNamespace = ns,
                   DocReleaseName = release_name (LabelSelector opts)\<rparr> of
              Inl err \<Rightarrow> Some (MarshalingCapabilities err)
            | Inr b \<Rightarrow> map_option WriteError (WriteFile w (Join outDir ''caps.json'') b))"
  using assms by (cases "getCapabilities w") (auto simp: caps_stage_def Let_def split: sum.splits)

section \<open>The release name\<close>

lemma lazy_value_end:
  "CHR '','' \<notin> set v \<Longrightarrow> CHR 0x0A \<notin> set v \<Longrightarrow> lazy_value v = Some (v, [])"
  by (induction v) auto

lemma lazy_value_comma:
  "CHR '','' \<notin> set v \<Longrightarrow> CHR 0x0A \<notin> set v \<Longrightarrow> lazy_value (v @ CHR '','' # rest) = Some (v, '','')"
  by (induction v) auto

lemma match_here_value:
  assumes "CHR '','' \<notin> set v" and "CHR 0x0A \<notin> set v"
    and "rest = [] \<or> (\<exists>rest'. rest = CHR '','' # rest')"
  shows "\<exists>t. match_here (''release='' @ v @ rest) = Some [''release='' @ v @ t, v, t]"
  using assms by (auto simp: match_here_def lazy_value_end lazy_value_comma)

lemma match_here_None: "take 8 s \<noteq> ''release='' \<Longrightarrow> match_here s = None"
  by (simp add: match_here_def)

lemma FindStringSubmatch_match:
  "match_here s = Some m \<Longrightarrow> FindStringSubmatch s = m"
  by (cases s) (auto simp: match_here_def)

lemma FindStringSubmatch_skip:
  "(\<forall>i<length pre. take 8 (drop i (pre @ s)) \<noteq> ''release='') \<Longrightarrow>
     FindStringSubmatch (pre @ s) = FindStringSubmatch s"
proof (induction pre)
  case Nil
  then show ?case by simp
next
  case (Cons c pre)
  from Cons.prems have "take 8 (drop 0 ((c # pre) @ s)) \<noteq> ''release=''" by blast
  then have 0: "match_here (c # pre @ s) = None" by (simp add: match_here_None)
  have "\<forall>i<length pre. take 8 (drop i (pre @ s)) \<noteq> ''release=''"
  proof (intro allI impI)
    fix i assume "i < length pre"
    then have "Suc i < length (c # pre)" by simp
    with Cons.prems have "take 8 (drop (Suc i) ((c # pre) @ s)) \<noteq> ''release=''" by blast
    then show "take 8 (drop i (pre @ s)) \<noteq> ''release=''" by simp
  qed
  with Cons.IH 0 show ?case by simp
qed

lemma FindStringSubmatch_no_token:
  "(\<forall>pre post. s \<noteq> pre @ ''release='' @ post) \<Longrightarrow> FindStringSubmatch s = []"
proof (induction s)
  case Nil
  then show ?case by simp
next
  case (Cons c cs)
  have "take 8 (c # cs) \<noteq> ''release=''"
  proof
    assume "take 8 (c # cs) = ''release=''"
    then have "c # cs = [] @ ''release='' @ drop 8 (c # cs)"
      using append_take_drop_id [of 8 "c # cs"] by simp
    with Cons.prems show False by blast
  qed
  then have 0: "match_here (c # cs) = None" by (rule match_here_None)
  have "\<forall>pre post. cs \<noteq> pre @ ''release='' @ post"
  proof (intro allI notI)
    fix pre post assume "cs = pre @ ''release='' @ post"
    then have "c # cs = (c # pre) @ ''release='' @ post" by simp
    with Cons.prems show False by blast
  qed
  with Cons.IH 0 show ?case by simp
qed

section \<open>The catalog\<close>

lemma resources_loop_fold:
  "resources_loop cwo c rs st = fold (claim_step cwo) (map (Pair c) rs) st"
proof (induction rs arbitrary: st)
  case Nil
  then show ?case by simp
next
  case (Cons r rs)
  obtain skip resources where st: "st = (skip, resources)" by (cases st)
  have "resources_loop cwo c (r # rs) (skip, resources)
          = resources_loop cwo c rs (claim_step cwo (c, r) (skip, resources))"
    by (simp add: claim_step_def ContainsRune_def Has_def Add_def Let_def)
  then show ?case by (simp add: st Cons.IH)
qed

lemma groups_loop_fold:
  "groups_loop w s vs st = fold (claim_step (clusterWideOnly s)) (discoveries w s vs) st"
proof (induction vs arbitrary: st)
  case Nil
  then show ?case by (simp add: discoveries_def)
next
  case (Cons v vs)
  then show ?case
    by (cases "group_client w s v") (simp_all add: discoveries_def resources_loop_fold)
qed

text \<open>
  The catalog after the visits \<open>ds\<close>: a name of the skip set keeps its entry, any other
  name gets the client of the first visited resource of that name that is not a
  sub-resource and not excluded by the mode.
\<close>

lemma fold_claim_step:
  "snd (fold (claim_step cwo) ds (skip, m)) name =
     (if name \<in> skip then m name
      else case find (\<lambda>(c, r). Name r = name \<and> CHR ''/'' \<notin> set (Name r)
                                 \<and> \<not> (cwo \<and> Namespaced r)) ds of
             Some (c, r) \<Rightarrow> Some c
           | None \<Rightarrow> m name)"
proof (induction ds arbitrary: skip m)
  case Nil
  then show ?case by simp
next
  case (Cons d ds)
  obtain c r where d: "d = (c, r)" by (cases d)
  show ?case
  proof (cases "CHR ''/'' \<in> set (Name r) \<or> Name r \<in> skip \<or> (cwo \<and> Namespaced r)")
    case True
    then have "claim_step cwo d (skip, m) = (skip, m)" by (simp add: claim_step_def d)
    with True show ?thesis by (auto simp: Cons.IH d)
  next
    case False
    then have "claim_step cwo d (skip, m) = (insert (Name r) skip, m(Name r \<mapsto> c))"
      by (auto simp: claim_step_def d)
    with False show ?thesis by (auto simp: Cons.IH d split: option.splits)
  qed
qed

lemma getAllResources_catalog:
  "getAllResources w s = Inr (snd (groups_loop w s (fst (ServerPreferredResources w)) (skip_init, Map.empty)))"
  by (cases "ServerPreferredResources w") (simp add: getAllResources_def Let_def)

lemma catalog_first_claim:
  "snd (groups_loop w s vs (skip_init, Map.empty)) name = map_option fst (first_claim w s vs name)"
proof -
  let ?P = "\<lambda>(c, r). Name r = name \<and> CHR ''/'' \<notin> set (Name r)
                                 \<and> \<not> (clusterWideOnly s \<and> Namespaced r)"
  let ?Q = "\<lambda>(c, r). Name r = name \<and> eligible (clusterWideOnly s) r"
  show ?thesis
  proof (cases "name \<in> skip_init")
    case True
    then have "find ?Q (discoveries w s vs) = None"
      by (auto simp: find_None_iff eligible_def)
    with True show ?thesis by (simp add: groups_loop_fold fold_claim_step first_claim_def)
  next
    case False
    then have "find ?Q (discoveries w s vs) = find ?P (discoveries w s vs)"
      by (intro find_cong) (auto simp: eligible_def)
    with False show ?thesis
      by (auto simp: groups_loop_fold fold_claim_step first_claim_def split: option.splits)
  qed
qed

section \<open>The files of a run\<close>

lemma items_loop_bodies:
  "snd (items_loop w outDir items) = None \<Longrightarrow> item \<in> set items \<Longrightarrow>
     snd (item_body w outDir item) = None"
  by (induction items) (auto split: prod.splits option.splits)

lemma type_body_bodies:
  assumes "snd (type_body w ns opts outDir (name, client)) = None"
    and "item \<in> set (Items (Do w (list_request ns opts name client)))"
  shows "snd (item_body w outDir item) = None"
  using assms items_loop_bodies [of w outDir "Items (Do w (list_request ns opts name client))" item]
  by (auto simp: type_body_def type_items_def Let_def split: prod.splits if_splits option.splits)

lemma caps_stage_writes:
  "Call_WriteFile p y \<in> set (fst (caps_stage w ns opts outDir)) \<Longrightarrow> p = Join outDir ''caps.json''"
  using getCapabilities_no_write [of p y w]
  by (cases "getCapabilities w")
     (auto simp: caps_stage_def Let_def split: option.splits sum.splits)

lemma ListAll_calls:
  "c \<in> set (fst (ListAll w s order ns opts outDir)) \<Longrightarrow>
     c = Call_MkdirAll outDir
     \<or> c \<in> set (fst (types_loop w ns opts outDir (range_entries (resourceClients s) order)))
     \<or> c \<in> set (fst (caps_stage w ns opts outDir))"
  by (auto simp: ListAll_def split: option.splits prod.splits)

text \<open>
  Every file that a run writes is \<open>caps.json\<close> or the file of a retrieved item that passed
  the three filters, under its key and with its YAML.
\<close>

lemma ListAll_writes:
  assumes "Call_WriteFile p y \<in> set (fst (ListAll w s order ns opts outDir))"
  shows "p = Join outDir ''caps.json''
     \<or> (\<exists>name client item. (name, client) \<in> set (range_entries (resourceClients s) order)
          \<and> item \<in> set (Items (Do w (list_request ns opts name client)))
          \<and> yaml_Marshal w item = Inr y
          \<and> \<not> owned_skip item \<and> \<not> secret_skip item \<and> \<not> service_skip item
          \<and> p = Join outDir (item_key w item))"
  using ListAll_calls [OF assms]
proof (elim disjE)
  assume "Call_WriteFile p y
            \<in> set (fst (types_loop w ns opts outDir (range_entries (resourceClients s) order)))"
  from enumeration_calls [OF this] show ?thesis by auto
next
  assume "Call_WriteFile p y \<in> set (fst (caps_stage w ns opts outDir))"
  then show ?thesis by (simp add: caps_stage_writes)
qed simp

text \<open>
  In a run that returns no error, every retrieved item that passes the three filters is
  written, under its key and with its YAML.
\<close>

lemma ListAll_written:
  assumes run: "snd (ListAll w s order ns opts outDir) = None"
    and entry: "(name, client) \<in> set (range_entries (resourceClients s) order)"
    and item: "item \<in> set (Items (Do w (list_request ns opts name client)))"
    and pass: "\<not> owned_skip item" "\<not> secret_skip item" "\<not> service_skip item"
  shows "\<exists>y. yaml_Marshal w item = Inr y
           \<and> Call_WriteFile (Join outDir (item_key w item)) y
                \<in> set (fst (ListAll w s order ns opts outDir))"
proof -
  let ?entries = "range_entries (resourceClients s) order"
  from run have m: "MkdirAll w outDir = None"
    by (auto simp: ListAll_def split: option.splits)
  from run m have t: "snd (types_loop w ns opts outDir ?entries) = None"
    by (auto simp: ListAll_def split: option.splits prod.splits)
  from types_loop_complete [OF t entry]
  have "snd (type_body w ns opts outDir (name, client)) = None" by simp
  from type_body_bodies [OF this item] have b: "snd (item_body w outDir item) = None" .
  then obtain y where y: "yaml_Marshal w item = Inr y"
    by (cases "yaml_Marshal w item") (auto simp: item_body_marshal_error)
  from item_body_written [OF y pass]
  have "Call_WriteFile (Join outDir (item_key w item)) y \<in> set (fst (item_body w outDir item))"
    by simp
  with enumeration_complete [OF t entry item]
  have "Call_WriteFile (Join outDir (item_key w item)) y
          \<in> set (fst (types_loop w ns opts outDir ?entries))" by blast
  with y show ?thesis by (simp add: ListAll_enumerated [OF m t])
qed

section \<open>Runs of the example cluster\<close>

text \<open>The definitions that the examples unfold.\<close>

lemmas lower_example = ToLower_def isASCII_def lower_byte_def char_of_def bit_Suc_0_iff

lemmas catalog_example =
  getAllResources_def asserted_err_def Let_def two_groups_def group_client_def
  ParseGroupVersion_def example_world_def example_scanner_def skip_init_def New_def Has_def
  Add_def ContainsRune_def group_a_def group_b_def

lemmas run_example =
  ListAll_def range_entries_def List.map_filter_def type_body_def type_items_def item_body_def
  caps_stage_def getCapabilities_def helm_stage_def helm_ls_def helm_version_def Let_def
  list_request_def item_key_def owned_skip_def secret_skip_def service_skip_def index_def
  ownedKindsToSkip_def New_def Has_def NewVersionSet_def release_name_def match_here_def
  version_args_def example_world_def example_scanner_def example_opts_def core_client_def

lemma mixed_run:
  "ListAll mixed_world example_scanner [''pods''] ''default'' example_opts ''out''
     = ([Call_MkdirAll ''out'',
         Call_Do (list_request ''default'' example_opts ''pods'' core_client),
         Call_WriteFile (Join ''out'' ''scanned-pod-default-web-2.yaml'') ''name: web-2'',
         Call_WriteFile (Join ''out'' ''scanned-secret-default-default-token.yaml'')
           ''name: default-token'',
         Call_WriteFile (Join ''out'' ''scanned-service-default-glusterfs-dynamic-claim.yaml'')
           ''name: glusterfs-dynamic-claim'',
         Call_ServerVersion, Call_ServerGroups, Call_Run [''helm'', ''ls''], Call_Run version_args,
         Call_WriteFile (Join ''out'' ''caps.json'') ''release myapp''], None)"
  by (simp add: run_example mixed_world_def owned_pod_def orphan_pod_def token_secret_def
      gluster_service_def lower_example)

lemma mixed_entries:
  "range_entries (resourceClients example_scanner) [''pods''] = [(''pods'', core_client)]"
  by (simp add: example_scanner_def range_entries_def List.map_filter_def)

lemma mixed_items:
  "Items (Do mixed_world (list_request ''default'' example_opts ''pods'' core_client))
     = [owned_pod, orphan_pod, token_secret, token_secret\<lparr>GetAnnotations := Map.empty\<rparr>,
        gluster_service, gluster_service\<lparr>GetLabels := Map.empty\<rparr>]"
  by (simp add: mixed_world_def example_world_def)

lemma mixed_marshal: "yaml_Marshal mixed_world item = Inr (''name: '' @ GetName item)"
  by (simp add: mixed_world_def example_world_def)

lemma mixed_key:
  "item_key mixed_world orphan_pod = ''scanned-pod-default-web-2.yaml''"
  "item_key mixed_world token_secret = ''scanned-secret-default-default-token.yaml''"
  "item_key mixed_world (gluster_service\<lparr>GetLabels := Map.empty\<rparr>)
     = ''scanned-service-default-glusterfs-dynamic-claim.yaml''"
  by (simp_all add: item_key_def orphan_pod_def owned_pod_def token_secret_def gluster_service_def
      mixed_world_def example_world_def lower_example)

section \<open>The claims\<close>

subsection \<open>Ownership suppression\<close>

text \<open>
  Claim C1. The table maps \<open>Pod\<close> to ReplicationController, ReplicaSet, StatefulSet,
  DaemonSet and Job, \<open>ReplicaSet\<close> to Deployment and \<open>Job\<close> to CronJob. For an item
  whose kind is a key of the table: when one of its owner references has a kind in the
  mapped set, the loop body makes no call, so no file is written for it; when it has no
  owner reference, or only owner references of kinds outside the mapped set, the loop body
  makes exactly the call that writes its file once its YAML was created, and a run that
  returns no error and retrieved the item has written it. The two other filters never
  apply to an item of these kinds. Every file that a run writes, \<open>caps.json\<close> apart, is
  that of a retrieved item none of whose owners has a kind in the set mapped to its kind.
\<close>

theorem ownership_suppression:
  "ownedKindsToSkip ''Pod''
     = Some {''ReplicationController'', ''ReplicaSet'', ''StatefulSet'', ''DaemonSet'', ''Job''}
   \<and> ownedKindsToSkip ''ReplicaSet'' = Some {''Deployment''}
   \<and> ownedKindsToSkip ''Job'' = Some {''CronJob''}
   \<and> (ownedKindsToSkip (ObjectKind item) = Some skip \<longrightarrow>
        ((\<exists>ow\<in>set (GetOwnerReferences item). Kind ow \<in> skip) \<longrightarrow>
           fst (item_body w outDir item) = [])
        \<and> ((\<forall>ow\<in>set (GetOwnerReferences item). Kind ow \<notin> skip) \<longrightarrow>
           (yaml_Marshal w item = Inr y \<longrightarrow>
              fst (item_body w outDir item) = [Call_WriteFile (Join outDir (item_key w item)) y])
           \<and> (snd (ListAll w s order ns opts outDir) = None
                \<and> (name, client) \<in> set (range_entries (resourceClients s) order)
                \<and> item \<in> set (Items (Do w (list_request ns opts name client))) \<longrightarrow>
               (\<exists>y'. yaml_Marshal w item = Inr y'
                  \<and> Call_WriteFile (Join outDir (item_key w item)) y'
                       \<in> set (fst (ListAll w s order ns opts outDir))))))
   \<and> (Call_WriteFile p b \<in> set (fst (ListAll w s order ns opts outDir)) \<longrightarrow>
        p = Join outDir ''caps.json''
        \<or> (\<exists>name client item'.
              (name, client) \<in> set (range_entries (resourceClients s) order)
              \<and> item' \<in> set (Items (Do w (list_request ns opts name client)))
              \<and> p = Join outDir (item_key w item') \<and> yaml_Marshal w item' = Inr b
              \<and> (\<forall>skip'. ownedKindsToSkip (ObjectKind item') = Some skip' \<longrightarrow>
                     (\<forall>ow\<in>set (GetOwnerReferences item'). Kind ow \<notin> skip'))))"
proof -
  have table: "ownedKindsToSkip ''Pod''
     = Some {''ReplicationController'', ''ReplicaSet'', ''StatefulSet'', ''DaemonSet'', ''Job''}"
    "ownedKindsToSkip ''ReplicaSet'' = Some {''Deployment''}"
    "ownedKindsToSkip ''Job'' = Some {''CronJob''}"
    by (simp_all add: ownedKindsToSkip_def New_def)
  have owned: "fst (item_body w outDir item) = []"
    if "ownedKindsToSkip (ObjectKind item) = Some skip"
      and "\<exists>ow\<in>set (GetOwnerReferences item). Kind ow \<in> skip"
  proof -
    from that have "owned_skip item" by (simp add: owned_skip_def owner_loop_iff)
    then show ?thesis by (simp add: item_body_skipped)
  qed
  have pass: "\<not> owned_skip item \<and> \<not> secret_skip item \<and> \<not> service_skip item"
    if k: "ownedKindsToSkip (ObjectKind item) = Some skip"
      and "\<forall>ow\<in>set (GetOwnerReferences item). Kind ow \<notin> skip"
  proof -
    from that have "\<not> owned_skip item" by (simp add: owned_skip_def owner_loop_iff)
    with owned_kind_not_secret_service [OF k] show ?thesis by simp
  qed
  have orphan: "fst (item_body w outDir item) = [Call_WriteFile (Join outDir (item_key w item)) y]"
    if "ownedKindsToSkip (ObjectKind item) = Some skip"
      and "\<forall>ow\<in>set (GetOwnerReferences item). Kind ow \<notin> skip"
      and "yaml_Marshal w item = Inr y"
    using pass [OF that(1,2)] that(3) by (simp add: item_body_written)
  have run: "\<exists>y'. yaml_Marshal w item = Inr y'
                  \<and> Call_WriteFile (Join outDir (item_key w item)) y'
                       \<in> set (fst (ListAll w s order ns opts outDir))"
    if "ownedKindsToSkip (ObjectKind item) = Some skip"
      and "\<forall>ow\<in>set (GetOwnerReferences item). Kind ow \<notin> skip"
      and "snd (ListAll w s order ns opts outDir) = None
                \<and> (name, client) \<in> set (range_entries (resourceClients s) order)
                \<and> item \<in> set (Items (Do w (list_request ns opts name client)))"
    using pass [OF that(1,2)] that(3) ListAll_written [of w s order ns opts outDir name client item]
    by blast
  have sound: "p = Join outDir ''caps.json''
        \<or> (\<exists>name client item'.
              (name, client) \<in> set (range_entries (resourceClients s) order)
              \<and> item' \<in> set (Items (Do w (list_request ns opts name client)))
              \<and> p = Join outDir (item_key w item') \<and> yaml_Marshal w item' = Inr b
              \<and> (\<forall>skip'. ownedKindsToSkip (ObjectKind item') = Some skip' \<longrightarrow>
                     (\<forall>ow\<in>set (GetOwnerReferences item'). Kind ow \<notin> skip')))"
    if "Call_WriteFile p b \<in> set (fst (ListAll w s order ns opts outDir))"
    using ListAll_writes [OF that] by (fastforce simp: owned_skip_def owner_loop_iff)
  from table owned orphan run sound show ?thesis by blast
qed

text \<open>
  A pod owned by a replica set is not written; a pod without owner is, by the loop body
  and by the run that retrieves both.
\<close>

theorem ownership_suppression_witness:
  "ownedKindsToSkip (ObjectKind owned_pod)
     = Some {''ReplicationController'', ''ReplicaSet'', ''StatefulSet'', ''DaemonSet'', ''Job''}
   \<and> (\<exists>ow\<in>set (GetOwnerReferences owned_pod).
         Kind ow \<in> {''ReplicationController'', ''ReplicaSet'', ''StatefulSet'', ''DaemonSet'', ''Job''})
   \<and> fst (item_body mixed_world ''out'' owned_pod) = []
   \<and> GetOwnerReferences orphan_pod = []
   \<and> yaml_Marshal mixed_world orphan_pod = Inr ''name: web-2''
   \<and> fst (item_body mixed_world ''out'' orphan_pod)
       = [Call_WriteFile (Join ''out'' (item_key mixed_world orphan_pod)) ''name: web-2'']
   \<and> item_key mixed_world orphan_pod = ''scanned-pod-default-web-2.yaml''
   \<and> snd (ListAll mixed_world example_scanner [''pods''] ''default'' example_opts ''out'') = None
   \<and> (''pods'', core_client) \<in> set (range_entries (resourceClients example_scanner) [''pods''])
   \<and> orphan_pod
        \<in> set (Items (Do mixed_world (list_request ''default'' example_opts ''pods'' core_client)))
   \<and> (\<exists>y'. yaml_Marshal mixed_world orphan_pod = Inr y'
         \<and> Call_WriteFile (Join ''out'' (item_key mixed_world orphan_pod)) y'
              \<in> set (fst (ListAll mixed_world example_scanner [''pods''] ''default'' example_opts
                             ''out'')))
   \<and> Call_WriteFile (Join ''out'' ''scanned-pod-default-web-2.yaml'') ''name: web-2''
        \<in> set (fst (ListAll mixed_world example_scanner [''pods''] ''default'' example_opts ''out''))
   \<and> (\<exists>name client item'.
         (name, client) \<in> set (range_entries (resourceClients example_scanner) [''pods''])
         \<and> item' \<in> set (Items (Do mixed_world (list_request ''default'' example_opts name client)))
         \<and> Join ''out'' ''scanned-pod-default-web-2.yaml'' = Join ''out'' (item_key mixed_world item')
         \<and> yaml_Marshal mixed_world item' = Inr ''name: web-2''
         \<and> (\<forall>skip'. ownedKindsToSkip (ObjectKind item') = Some skip' \<longrightarrow>
                (\<forall>ow\<in>set (GetOwnerReferences item'). Kind ow \<notin> skip')))"
proof -
  let ?skip = "{''ReplicationController'', ''ReplicaSet'', ''StatefulSet'', ''DaemonSet'', ''Job''}"
  let ?run = "ListAll mixed_world example_scanner [''pods''] ''default'' example_opts ''out''"
  note k = mixed_key(1)
  have m: "yaml_Marshal mixed_world orphan_pod = Inr ''name: web-2''"
    by (simp add: mixed_marshal orphan_pod_def)
  have o1: "ownedKindsToSkip (ObjectKind owned_pod) = Some ?skip"
    and o2: "ownedKindsToSkip (ObjectKind orphan_pod) = Some ?skip"
    and o3: "GetOwnerReferences orphan_pod = []"
    by (simp_all add: ownedKindsToSkip_def New_def owned_pod_def orphan_pod_def)
  have r: "snd ?run = None" by (simp add: mixed_run)
  have e: "(''pods'', core_client) \<in> set (range_entries (resourceClients example_scanner) [''pods''])"
    by (simp add: mixed_entries)
  have i: "orphan_pod
        \<in> set (Items (Do mixed_world (list_request ''default'' example_opts ''pods'' core_client)))"
    by (simp add: mixed_items)
  have in_skip: "\<exists>ow\<in>set (GetOwnerReferences owned_pod). Kind ow \<in> ?skip"
    by (simp add: owned_pod_def)
  have out_skip: "\<forall>ow\<in>set (GetOwnerReferences orphan_pod). Kind ow \<notin> ?skip"
    by (simp add: orphan_pod_def)
  from ownership_suppression [where item = owned_pod and skip = ?skip and w = mixed_world
      and outDir = "''out''"] o1 in_skip
  have 1: "fst (item_body mixed_world ''out'' owned_pod) = []" by blast
  from ownership_suppression [where item = orphan_pod and skip = ?skip and w = mixed_world
      and outDir = "''out''" and y = "''name: web-2''" and s = example_scanner
      and order = "[''pods'']" and ns = "''default''" and opts = example_opts
      and name = "''pods''" and client = core_client] o2 out_skip m r e i
  have 2: "fst (item_body mixed_world ''out'' orphan_pod)
       = [Call_WriteFile (Join ''out'' (item_key mixed_world orphan_pod)) ''name: web-2'']
    \<and> (\<exists>y'. yaml_Marshal mixed_world orphan_pod = Inr y'
         \<and> Call_WriteFile (Join ''out'' (item_key mixed_world orphan_pod)) y' \<in> set (fst ?run))"
    by blast
  have w: "Call_WriteFile (Join ''out'' ''scanned-pod-default-web-2.yaml'') ''name: web-2''
             \<in> set (fst ?run)"
    by (simp add: mixed_run)
  have c: "Join ''out'' ''scanned-pod-default-web-2.yaml'' \<noteq> Join ''out'' ''caps.json''"
    by simp
  note sound = ownership_suppression [where w = mixed_world and outDir = "''out''"
      and s = example_scanner and order = "[''pods'']" and ns = "''default''"
      and opts = example_opts and p = "Join ''out'' ''scanned-pod-default-web-2.yaml''"
      and b = "''name: web-2''", THEN conjunct2, THEN conjunct2, THEN conjunct2, THEN conjunct2,
      THEN mp, OF w]
  from sound have 3: "\<exists>name client item'.
         (name, client) \<in> set (range_entries (resourceClients example_scanner) [''pods''])
         \<and> item' \<in> set (Items (Do mixed_world (list_request ''default'' example_opts name client)))
         \<and> Join ''out'' ''scanned-pod-default-web-2.yaml'' = Join ''out'' (item_key mixed_world item')
         \<and> yaml_Marshal mixed_world item' = Inr ''name: web-2''
         \<and> (\<forall>skip'. ownedKindsToSkip (ObjectKind item') = Some skip' \<longrightarrow>
                (\<forall>ow\<in>set (GetOwnerReferences item'). Kind ow \<notin> skip'))"
  proof
    assume "Join ''out'' ''scanned-pod-default-web-2.yaml'' = Join ''out'' ''caps.json''"
    with c show ?thesis by (rule notE)
  qed
  note body = 2 [THEN conjunct1] and written = 2 [THEN conjunct2]
  show ?thesis by (intro conjI) fact+
qed

subsection \<open>The list errors\<close>

text \<open>
  Claim C2. Let the list request of a resource type return an error. When the error is
  not-found, or method-not-supported, or bad-request or service-unavailable for a client
  whose group ends with \<open>.clusterapi.io\<close>, the loop body does not return a listing error:
  it goes on with the items of the list as it does without an error, and with the empty
  list that the request leaves behind on an error, the loop goes on to the next resource
  type after the one call. For
  any other error the loop returns the listing error after the one call, and so does
  \<open>ListAll\<close>, with no call after it.
\<close>

theorem list_error_policy:
  assumes "Err (Do w (list_request ns opts name client)) = Some err"
  shows "(IsNotFound err \<or> IsMethodNotSupported err
            \<or> ((IsBadRequest err \<or> IsServiceUnavailable err)
                \<and> HasSuffix (Group (APIVersion client)) ''.clusterapi.io'') \<longrightarrow>
          type_body w ns opts outDir (name, client) =
            (Call_Do (list_request ns opts name client)
               # fst (items_loop w outDir (Items (Do w (list_request ns opts name client)))),
             snd (items_loop w outDir (Items (Do w (list_request ns opts name client)))))
          \<and> (\<forall>e. snd (type_body w ns opts outDir (name, client)) \<noteq> Some (Listing name e))
          \<and> (Items (Do w (list_request ns opts name client)) = [] \<longrightarrow>
               types_loop w ns opts outDir ((name, client) # rest) =
                 (Call_Do (list_request ns opts name client) # fst (types_loop w ns opts outDir rest),
                  snd (types_loop w ns opts outDir rest))))
       \<and> (\<not> (IsNotFound err \<or> IsMethodNotSupported err
            \<or> ((IsBadRequest err \<or> IsServiceUnavailable err)
                \<and> HasSuffix (Group (APIVersion client)) ''.clusterapi.io'')) \<longrightarrow>
          types_loop w ns opts outDir ((name, client) # rest) =
            ([Call_Do (list_request ns opts name client)], Some (Listing name err))
          \<and> (MkdirAll w outDir = None
               \<and> range_entries (resourceClients s) order = pre @ (name, client) # rest
               \<and> (\<forall>entry\<in>set pre. snd (type_body w ns opts outDir entry) = None) \<longrightarrow>
              ListAll w s order ns opts outDir =
                (Call_MkdirAll outDir # fst (types_loop w ns opts outDir pre)
                   @ [Call_Do (list_request ns opts name client)],
                 Some (Listing name err))))"
proof -
  let ?tolerated = "IsNotFound err \<or> IsMethodNotSupported err
            \<or> ((IsBadRequest err \<or> IsServiceUnavailable err)
                \<and> HasSuffix (Group (APIVersion client)) ''.clusterapi.io'')"
  let ?req = "list_request ns opts name client"
  have fatal_iff: "list_error_fatal client err \<longleftrightarrow> \<not> ?tolerated"
    by (auto simp: list_error_fatal_def)
  have tol0: "type_body w ns opts outDir (name, client) =
            (Call_Do ?req # fst (items_loop w outDir (Items (Do w ?req))),
             snd (items_loop w outDir (Items (Do w ?req))))"
    if t: ?tolerated
  proof -
    from t have nf: "\<not> list_error_fatal client err" by (simp add: fatal_iff)
    from type_body_tolerated [OF assms nf] show ?thesis .
  qed
  have tol1: "snd (type_body w ns opts outDir (name, client)) \<noteq> Some (Listing name e)"
    if t: ?tolerated for e
  proof
    assume a: "snd (type_body w ns opts outDir (name, client)) = Some (Listing name e)"
    from t have nf: "\<not> list_error_fatal client err" by (simp add: fatal_iff)
    from a type_body_tolerated [OF assms nf]
    have "snd (items_loop w outDir (Items (Do w ?req))) = Some (Listing name e)" by simp
    from items_loop_error [OF this] show False by auto
  qed
  have tol2: "types_loop w ns opts outDir ((name, client) # rest) =
                 (Call_Do ?req # fst (types_loop w ns opts outDir rest),
                  snd (types_loop w ns opts outDir rest))"
    if t: ?tolerated and i: "Items (Do w ?req) = []"
  proof -
    from t have nf: "\<not> list_error_fatal client err" by (simp add: fatal_iff)
    from type_body_tolerated [OF assms nf] i
    have "type_body w ns opts outDir (name, client) = ([Call_Do ?req], None)" by simp
    then show ?thesis by (simp split: prod.splits)
  qed
  have body: "type_body w ns opts outDir (name, client) = ([Call_Do ?req], Some (Listing name err))"
    if "\<not> ?tolerated"
    using that type_body_fatal [OF assms] by (simp add: fatal_iff)
  have fat1: "types_loop w ns opts outDir ((name, client) # rest) =
            ([Call_Do ?req], Some (Listing name err))"
    if "\<not> ?tolerated"
    using body [OF that] by simp
  have fat2: "ListAll w s order ns opts outDir =
                (Call_MkdirAll outDir # fst (types_loop w ns opts outDir pre) @ [Call_Do ?req],
                 Some (Listing name err))"
    if f: "\<not> ?tolerated" and m: "MkdirAll w outDir = None"
      and r: "range_entries (resourceClients s) order = pre @ (name, client) # rest"
      and p: "\<forall>entry\<in>set pre. snd (type_body w ns opts outDir entry) = None"
  proof -
    from types_loop_stop [OF p body [OF f]] r
    have "types_loop w ns opts outDir (range_entries (resourceClients s) order) =
            (fst (types_loop w ns opts outDir pre) @ [Call_Do ?req], Some (Listing name err))"
      by simp
    from ListAll_enumeration_error [OF m this] show ?thesis by simp
  qed
  from tol0 tol1 tol2 fat1 fat2 show ?thesis by blast
qed

text \<open>
  A service-unavailable error is tolerated for a client of the group
  \<open>mcm.clusterapi.io\<close> and ends the run for the client of the core group.
\<close>

theorem list_error_policy_witness:
  "Err (Do (example_world\<lparr>Do := (\<lambda>req. \<lparr>Err = Some unavailable, Items = []\<rparr>)\<rparr>)
         (list_request ''default'' example_opts ''clusters'' mcm_client)) = Some unavailable
   \<and> IsServiceUnavailable unavailable
   \<and> HasSuffix (Group (APIVersion mcm_client)) ''.clusterapi.io''
   \<and> types_loop (example_world\<lparr>Do := (\<lambda>req. \<lparr>Err = Some unavailable, Items = []\<rparr>)\<rparr>)
         ''default'' example_opts ''out'' [(''clusters'', mcm_client)]
       = ([Call_Do (list_request ''default'' example_opts ''clusters'' mcm_client)], None)
   \<and> \<not> HasSuffix (Group (APIVersion core_client)) ''.clusterapi.io''
   \<and> MkdirAll (example_world\<lparr>Do := (\<lambda>req. \<lparr>Err = Some unavailable, Items = []\<rparr>)\<rparr>) ''out'' = None
   \<and> range_entries (resourceClients example_scanner) [''pods''] = [(''pods'', core_client)]
   \<and> ListAll (example_world\<lparr>Do := (\<lambda>req. \<lparr>Err = Some unavailable, Items = []\<rparr>)\<rparr>)
         example_scanner [''pods''] ''default'' example_opts ''out''
       = ([Call_MkdirAll ''out'', Call_Do (list_request ''default'' example_opts ''pods'' core_client)],
          Some (Listing ''pods'' unavailable))"
  using
    list_error_policy [of "example_world\<lparr>Do := (\<lambda>req. \<lparr>Err = Some unavailable, Items = []\<rparr>)\<rparr>"
      "''default''" example_opts "''clusters''" mcm_client unavailable "''out''" "[]"
      example_scanner "[]" "[]"]
    list_error_policy [of "example_world\<lparr>Do := (\<lambda>req. \<lparr>Err = Some unavailable, Items = []\<rparr>)\<rparr>"
      "''default''" example_opts "''pods''" core_client unavailable "''out''" "[]"
      example_scanner "[''pods'']" "[]"]
  by (simp add: example_world_def unavailable_def mcm_client_def core_client_def HasSuffix_def
      example_scanner_def range_entries_def List.map_filter_def)

subsection \<open>First claim of a name\<close>

text \<open>
  Claim C3, amended. The catalog maps every name to at most one client: the client of the
  first visited resource of that name that can enter the catalog, that is, whose
  group/version parsed and got a client, whose name has no path separator and is not in
  the seeded skip set, and which is not namespaced in cluster-wide-only mode. Every later
  resource of that name is dropped.
\<close>

theorem first_eligible_claims:
  assumes "getAllResources w s = Inr catalog"
  shows "catalog name = map_option fst (first_claim w s (fst (ServerPreferredResources w)) name)"
proof -
  from assms
  have "catalog = snd (groups_loop w s (fst (ServerPreferredResources w)) (skip_init, Map.empty))"
    by (simp add: getAllResources_catalog)
  then show ?thesis by (simp only: catalog_first_claim)
qed

text \<open>
  In cluster-wide-only mode \<open>foos\<close> is claimed by the second group and \<open>bars\<close> by the
  first.
\<close>

theorem first_eligible_claims_witness:
  "getAllResources (example_world\<lparr>ServerPreferredResources := (two_groups, None)\<rparr>)
      (example_scanner\<lparr>clusterWideOnly := True\<rparr>)
     = Inr [''bars'' \<mapsto> group_a, ''foos'' \<mapsto> group_b]
   \<and> first_claim (example_world\<lparr>ServerPreferredResources := (two_groups, None)\<rparr>)
        (example_scanner\<lparr>clusterWideOnly := True\<rparr>) two_groups ''foos''
     = Some (group_b, \<lparr>Name = ''foos'', Namespaced = False\<rparr>)
   \<and> first_claim (example_world\<lparr>ServerPreferredResources := (two_groups, None)\<rparr>)
        (example_scanner\<lparr>clusterWideOnly := True\<rparr>) two_groups ''bars''
     = Some (group_a, \<lparr>Name = ''bars'', Namespaced = False\<rparr>)"
proof -
  let ?w = "example_world\<lparr>ServerPreferredResources := (two_groups, None)\<rparr>"
  let ?s = "example_scanner\<lparr>clusterWideOnly := True\<rparr>"
  have g: "getAllResources ?w ?s = Inr [''bars'' \<mapsto> group_a, ''foos'' \<mapsto> group_b]"
    by (simp add: catalog_example)
  have v: "fst (ServerPreferredResources ?w) = two_groups" by (simp add: example_world_def)
  have d: "discoveries ?w ?s two_groups =
             [(group_a, \<lparr>Name = ''foos'', Namespaced = True\<rparr>),
              (group_a, \<lparr>Name = ''foos/status'', Namespaced = True\<rparr>),
              (group_a, \<lparr>Name = ''events'', Namespaced = False\<rparr>),
              (group_a, \<lparr>Name = ''bars'', Namespaced = False\<rparr>),
              (group_b, \<lparr>Name = ''foos'', Namespaced = False\<rparr>),
              (group_b, \<lparr>Name = ''bars'', Namespaced = False\<rparr>)]"
    by (simp add: discoveries_def catalog_example)
  have f: "first_claim ?w ?s two_groups ''foos''
             = Some (group_b, \<lparr>Name = ''foos'', Namespaced = False\<rparr>)"
    by (simp add: first_claim_def d eligible_def skip_init_def New_def)
  have b: "first_claim ?w ?s two_groups ''bars''
             = Some (group_a, \<lparr>Name = ''bars'', Namespaced = False\<rparr>)"
    by (simp add: first_claim_def d eligible_def skip_init_def New_def)
  from first_eligible_claims [OF g, of "''foos''"] first_eligible_claims [OF g, of "''bars''"]
    g f b
  show ?thesis by simp
qed

text \<open>
  Claim C3 as stated fails: in cluster-wide-only mode the name \<open>foos\<close> is discovered in
  the first group and in the second, and the catalog maps it to the client of the second.
\<close>

theorem first_seen_counterexample:
  "getAllResources (example_world\<lparr>ServerPreferredResources := (two_groups, None)\<rparr>)
      (example_scanner\<lparr>clusterWideOnly := True\<rparr>)
     = Inr [''bars'' \<mapsto> group_a, ''foos'' \<mapsto> group_b]
   \<and> [''bars'' \<mapsto> group_a, ''foos'' \<mapsto> group_b] ''foos'' = Some group_b
   \<and> first_seen (example_world\<lparr>ServerPreferredResources := (two_groups, None)\<rparr>)
        (example_scanner\<lparr>clusterWideOnly := True\<rparr>) two_groups ''foos'' = Some group_a
   \<and> group_a \<noteq> group_b"
proof -
  let ?w = "example_world\<lparr>ServerPreferredResources := (two_groups, None)\<rparr>"
  let ?s = "example_scanner\<lparr>clusterWideOnly := True\<rparr>"
  have g: "getAllResources ?w ?s = Inr [''bars'' \<mapsto> group_a, ''foos'' \<mapsto> group_b]"
    by (simp add: catalog_example)
  have d: "discoveries ?w ?s two_groups =
             [(group_a, \<lparr>Name = ''foos'', Namespaced = True\<rparr>),
              (group_a, \<lparr>Name = ''foos/status'', Namespaced = True\<rparr>),
              (group_a, \<lparr>Name = ''events'', Namespaced = False\<rparr>),
              (group_a, \<lparr>Name = ''bars'', Namespaced = False\<rparr>),
              (group_b, \<lparr>Name = ''foos'', Namespaced = False\<rparr>),
              (group_b, \<lparr>Name = ''bars'', Namespaced = False\<rparr>)]"
    by (simp add: discoveries_def catalog_example)
  have f: "first_seen ?w ?s two_groups ''foos'' = Some group_a"
    by (simp add: first_seen_def d)
  have n: "group_a \<noteq> group_b" by (simp add: group_a_def group_b_def)
  from g f n show ?thesis by simp
qed

subsection \<open>The helm probes\<close>

text \<open>
  Claim C4, amended. Let the server version and a non-empty group list be read, and let
  the enumeration end without an error. When both \<open>helm ls\<close> invocations fail, as they do
  when the binary is absent, \<open>getCapabilities\<close> returns no error and leaves the tiller
  version unset, and the result of \<open>ListAll\<close> is that of marshalling and writing the
  descriptor. When one \<open>helm ls\<close> invocation succeeds and both \<open>helm version\<close> invocations
  fail, the tiller version is unset as well, but \<open>getCapabilities\<close> returns the error of
  the second invocation, and \<open>ListAll\<close> returns it after the calls of \<open>getCapabilities\<close>
  and does not write \<open>caps.json\<close>.
\<close>

theorem helm_probing:
  assumes "ServerVersion w = Inr sv" and "ServerGroups w = Inr groups" and "Size groups \<noteq> 0"
    and "MkdirAll w outDir = None"
    and "snd (types_loop w ns opts outDir (range_entries (resourceClients s) order)) = None"
  shows "(RunErr (Run w [''helm'', ''ls'']) \<noteq> None
            \<and> RunErr (Run w [''helm'', ''ls'', ''--tls'']) \<noteq> None \<longrightarrow>
          snd (getCapabilities w) =
            (\<lparr>KubeVersion = Some sv, APIVersions = Some (NewVersionSet (ExtractGroupVersions groups)),
              TillerVersion = None\<rparr>, None)
          \<and> snd (ListAll w s order ns opts outDir) =
              (case json_MarshalIndent w
                     \<lparr>DocCapabilities =
                        \<lparr>KubeVersion = Some sv, APIVersions = Some (NewVersionSet (ExtractGroupVersions groups)),
                         TillerVersion = None\<rparr>,
                      DocNamespace = ns, DocReleaseName = release_name (LabelSelector opts)\<rparr> of
                 Inl err \<Rightarrow> Some (MarshalingCapabilities err)
               | Inr b \<Rightarrow> map_option WriteError (WriteFile w (Join outDir ''caps.json'') b)))
       \<and> ((RunErr (Run w [''helm'', ''ls'']) = None
             \<or> RunErr (Run w [''helm'', ''ls'', ''--tls'']) = None)
            \<and> RunErr (Run w version_args) \<noteq> None
            \<and> RunErr (Run w version_tls_args) = Some e \<longrightarrow>
          snd (getCapabilities w) =
            (\<lparr>KubeVersion = Some sv, APIVersions = Some (NewVersionSet (ExtractGroupVersions groups)),
              TillerVersion = None\<rparr>, Some (TillerVersionError e))
          \<and> ListAll w s order ns opts outDir =
              (Call_MkdirAll outDir
                 # fst (types_loop w ns opts outDir (range_entries (resourceClients s) order))
                 @ fst (getCapabilities w),
               Some (ReadingClusterCapabilities (TillerVersionError e)))
          \<and> (\<forall>b. Call_WriteFile (Join outDir ''caps.json'') b
                     \<notin> set (fst (ListAll w s order ns opts outDir))))"
proof -
  let ?c = "\<lparr>KubeVersion = Some sv, APIVersions = Some (NewVersionSet (ExtractGroupVersions groups)),
             TillerVersion = None\<rparr>"
  note run = ListAll_enumerated [OF assms(4,5)]
  note caps = getCapabilities_helm [OF assms(1-3)]
  have dead: "snd (getCapabilities w) = (?c, None)"
    if "RunErr (Run w [''helm'', ''ls'']) \<noteq> None
            \<and> RunErr (Run w [''helm'', ''ls'', ''--tls'']) \<noteq> None"
    using that by (simp add: caps helm_stage_dead helm_ls_dead)
  have dead_run: "snd (ListAll w s order ns opts outDir) =
              (case json_MarshalIndent w
                     \<lparr>DocCapabilities = ?c,
                      DocNamespace = ns, DocReleaseName = release_name (LabelSelector opts)\<rparr> of
                 Inl err \<Rightarrow> Some (MarshalingCapabilities err)
               | Inr b \<Rightarrow> map_option WriteError (WriteFile w (Join outDir ''caps.json'') b))"
    if "RunErr (Run w [''helm'', ''ls'']) \<noteq> None
            \<and> RunErr (Run w [''helm'', ''ls'', ''--tls'']) \<noteq> None"
    using caps_stage_result [OF dead [OF that]] by (simp add: run)
  have failed: "snd (getCapabilities w) = (?c, Some (TillerVersionError e))"
    if "(RunErr (Run w [''helm'', ''ls'']) = None
             \<or> RunErr (Run w [''helm'', ''ls'', ''--tls'']) = None)
            \<and> RunErr (Run w version_args) \<noteq> None
            \<and> RunErr (Run w version_tls_args) = Some e"
    using that by (simp add: caps helm_stage_failed helm_ls_live helm_version_failed)
  have failed_run: "ListAll w s order ns opts outDir =
              (Call_MkdirAll outDir
                 # fst (types_loop w ns opts outDir (range_entries (resourceClients s) order))
                 @ fst (getCapabilities w),
               Some (ReadingClusterCapabilities (TillerVersionError e)))"
    if "(RunErr (Run w [''helm'', ''ls'']) = None
             \<or> RunErr (Run w [''helm'', ''ls'', ''--tls'']) = None)
            \<and> RunErr (Run w version_args) \<noteq> None
            \<and> RunErr (Run w version_tls_args) = Some e"
  proof -
    from failed [OF that] have "snd (snd (getCapabilities w)) = Some (TillerVersionError e)"
      by simp
    from caps_stage_error [OF this] show ?thesis by (simp add: run)
  qed
  have unwritten: "Call_WriteFile (Join outDir ''caps.json'') b
                     \<notin> set (fst (ListAll w s order ns opts outDir))"
    if "(RunErr (Run w [''helm'', ''ls'']) = None
             \<or> RunErr (Run w [''helm'', ''ls'', ''--tls'']) = None)
            \<and> RunErr (Run w version_args) \<noteq> None
            \<and> RunErr (Run w version_tls_args) = Some e" for b
    using enumeration_no_capabilities(2)
            [of _ w ns opts outDir "range_entries (resourceClients s) order" b]
      getCapabilities_no_write [of "Join outDir ''caps.json''" b w]
    by (auto simp: failed_run [OF that])
  from dead dead_run failed failed_run unwritten show ?thesis by blast
qed

text \<open>
  With a helm binary that always fails the run succeeds; with one whose \<open>helm ls\<close>
  succeeds and whose \<open>helm version\<close> fails the run fails.
\<close>

theorem helm_probing_witness:
  "snd (getCapabilities (example_world\<lparr>Run := helm_down\<rparr>))
     = (\<lparr>KubeVersion = Some ''v1.11.0'', APIVersions = Some {''v1'', ''apps/v1''},
         TillerVersion = None\<rparr>, None)
   \<and> snd (ListAll (example_world\<lparr>Run := helm_down\<rparr>) example_scanner [''pods''] ''default''
            example_opts ''out'') = None
   \<and> snd (getCapabilities (example_world\<lparr>Run := tiller_down\<rparr>))
     = (\<lparr>KubeVersion = Some ''v1.11.0'', APIVersions = Some {''v1'', ''apps/v1''},
         TillerVersion = None\<rparr>, Some (TillerVersionError ''exit status 1''))
   \<and> snd (ListAll (example_world\<lparr>Run := tiller_down\<rparr>) example_scanner [''pods''] ''default''
            example_opts ''out'')
     = Some (ReadingClusterCapabilities (TillerVersionError ''exit status 1''))"
proof -
  have t: "snd (types_loop (example_world\<lparr>Run := r\<rparr>) ''default'' example_opts ''out''
                 (range_entries (resourceClients example_scanner) [''pods''])) = None" for r
    by (simp add: example_scanner_def range_entries_def List.map_filter_def type_body_def
        type_items_def Let_def example_world_def)
  from helm_probing [of "example_world\<lparr>Run := helm_down\<rparr>" "''v1.11.0''"
      "\<lparr>Size = 40, ExtractGroupVersions = [''v1'', ''apps/v1'']\<rparr>" "''out''" "''default''"
      example_opts example_scanner "[''pods'']" "[]", OF _ _ _ _ t]
  have 1: "snd (getCapabilities (example_world\<lparr>Run := helm_down\<rparr>))
     = (\<lparr>KubeVersion = Some ''v1.11.0'', APIVersions = Some {''v1'', ''apps/v1''},
         TillerVersion = None\<rparr>, None)
   \<and> snd (ListAll (example_world\<lparr>Run := helm_down\<rparr>) example_scanner [''pods''] ''default''
            example_opts ''out'') = None"
    by (simp add: example_world_def helm_down_def NewVersionSet_def)
  from helm_probing [of "example_world\<lparr>Run := tiller_down\<rparr>" "''v1.11.0''"
      "\<lparr>Size = 40, ExtractGroupVersions = [''v1'', ''apps/v1'']\<rparr>" "''out''" "''default''"
      example_opts example_scanner "[''pods'']" "''exit status 1''", OF _ _ _ _ t]
  have 2: "snd (getCapabilities (example_world\<lparr>Run := tiller_down\<rparr>))
     = (\<lparr>KubeVersion = Some ''v1.11.0'', APIVersions = Some {''v1'', ''apps/v1''},
         TillerVersion = None\<rparr>, Some (TillerVersionError ''exit status 1''))
   \<and> snd (ListAll (example_world\<lparr>Run := tiller_down\<rparr>) example_scanner [''pods''] ''default''
            example_opts ''out'')
     = Some (ReadingClusterCapabilities (TillerVersionError ''exit status 1''))"
    by (simp add: example_world_def tiller_down_def version_args_def version_tls_args_def
        NewVersionSet_def)
  from 1 2 show ?thesis by simp
qed

text \<open>
  Claim C4 as stated fails: when \<open>helm ls\<close> succeeds and both \<open>helm version\<close> invocations
  fail, the run returns an error and writes no \<open>caps.json\<close>.
\<close>

theorem helm_version_failure_counterexample:
  "ListAll (example_world\<lparr>Run := tiller_down\<rparr>) example_scanner [''pods''] ''default''
      example_opts ''out''
     = ([Call_MkdirAll ''out'', Call_Do (list_request ''default'' example_opts ''pods'' core_client),
         Call_ServerVersion, Call_ServerGroups, Call_Run [''helm'', ''ls''],
         Call_Run version_args, Call_Run version_tls_args],
        Some (ReadingClusterCapabilities (TillerVersionError ''exit status 1'')))"
proof -
  let ?w = "example_world\<lparr>Run := tiller_down\<rparr>"
  have r: "range_entries (resourceClients example_scanner) [''pods''] = [(''pods'', core_client)]"
    by (simp add: example_scanner_def range_entries_def List.map_filter_def)
  have t: "types_loop ?w ''default'' example_opts ''out'' [(''pods'', core_client)]
             = ([Call_Do (list_request ''default'' example_opts ''pods'' core_client)], None)"
    by (simp add: type_body_def type_items_def Let_def example_world_def)
  have g: "getCapabilities ?w
             = ([Call_ServerVersion, Call_ServerGroups, Call_Run [''helm'', ''ls''],
                 Call_Run version_args, Call_Run version_tls_args],
                \<lparr>KubeVersion = Some ''v1.11.0'', APIVersions = Some {''v1'', ''apps/v1''},
                 TillerVersion = None\<rparr>, Some (TillerVersionError ''exit status 1''))"
    by (simp add: getCapabilities_def helm_stage_def helm_ls_def helm_version_def Let_def
        example_world_def tiller_down_def version_args_def version_tls_args_def
        NewVersionSet_def)
  have m: "MkdirAll ?w ''out'' = None" by (simp add: example_world_def)
  have c: "caps_stage ?w ''default'' example_opts ''out''
             = ([Call_ServerVersion, Call_ServerGroups, Call_Run [''helm'', ''ls''],
                 Call_Run version_args, Call_Run version_tls_args],
                Some (ReadingClusterCapabilities (TillerVersionError ''exit status 1'')))"
    by (simp add: caps_stage_def g)
  from t r have "types_loop ?w ''default'' example_opts ''out''
                   (range_entries (resourceClients example_scanner) [''pods''])
             = ([Call_Do (list_request ''default'' example_opts ''pods'' core_client)], None)"
    by simp
  with ListAll_enumerated [OF m, of "''default''" example_opts example_scanner "[''pods'']"] c
  show ?thesis by simp
qed

subsection \<open>The capabilities after the enumeration\<close>

text \<open>
  Claim C5, amended. When the output directory exists and the enumeration ends without an
  error, \<open>ListAll\<close> goes on with the capabilities: its calls are those of the enumeration
  followed by those of the capabilities stage, the server version is asked for exactly
  once, and when the capabilities are read and marshalled the last call writes
  \<open>caps.json\<close>. When the enumeration returns an error, \<open>ListAll\<close> returns it: the server
  version is never asked for and \<open>caps.json\<close> is never written.
\<close>

theorem capabilities_after_enumeration:
  assumes "MkdirAll w outDir = None"
  shows "(snd (types_loop w ns opts outDir (range_entries (resourceClients s) order)) = None \<longrightarrow>
            ListAll w s order ns opts outDir =
              (Call_MkdirAll outDir
                 # fst (types_loop w ns opts outDir (range_entries (resourceClients s) order))
                 @ fst (caps_stage w ns opts outDir),
               snd (caps_stage w ns opts outDir))
            \<and> count_list (fst (ListAll w s order ns opts outDir)) Call_ServerVersion = 1
            \<and> (snd (snd (getCapabilities w)) = None
                 \<and> json_MarshalIndent w \<lparr>DocCapabilities = fst (snd (getCapabilities w)),
                      DocNamespace = ns, DocReleaseName = release_name (LabelSelector opts)\<rparr> = Inr b
               \<longrightarrow> last (fst (ListAll w s order ns opts outDir))
                     = Call_WriteFile (Join outDir ''caps.json'') b))
       \<and> (snd (types_loop w ns opts outDir (range_entries (resourceClients s) order)) = Some e \<longrightarrow>
            snd (ListAll w s order ns opts outDir) = Some e
            \<and> Call_ServerVersion \<notin> set (fst (ListAll w s order ns opts outDir))
            \<and> (\<forall>b'. Call_WriteFile (Join outDir ''caps.json'') b'
                       \<notin> set (fst (ListAll w s order ns opts outDir))))"
proof -
  let ?entries = "range_entries (resourceClients s) order"
  let ?run = "ListAll w s order ns opts outDir"
  have enum: "Call_ServerVersion \<notin> set (fst (types_loop w ns opts outDir ?entries))"
    "Call_WriteFile (Join outDir ''caps.json'') b' \<notin> set (fst (types_loop w ns opts outDir ?entries))"
    for b'
    using enumeration_no_capabilities [of _ w ns opts outDir ?entries] by blast+
  have ok: "?run = (Call_MkdirAll outDir # fst (types_loop w ns opts outDir ?entries)
                      @ fst (caps_stage w ns opts outDir),
                    snd (caps_stage w ns opts outDir))"
    if "snd (types_loop w ns opts outDir ?entries) = None"
    using ListAll_enumerated [OF assms that] .
  have once: "count_list (fst ?run) Call_ServerVersion = 1"
    if n: "snd (types_loop w ns opts outDir ?entries) = None"
  proof -
    from caps_stage_calls [of w ns opts outDir] obtain cs
      where c: "fst (caps_stage w ns opts outDir) = Call_ServerVersion # cs"
        "Call_ServerVersion \<notin> set cs" by blast
    from enum(1) c(2) show ?thesis
      by (simp add: ok [OF n] c(1) count_list_0_iff)
  qed
  have written: "last (fst ?run) = Call_WriteFile (Join outDir ''caps.json'') b"
    if n: "snd (types_loop w ns opts outDir ?entries) = None"
      and g: "snd (snd (getCapabilities w)) = None"
      and j: "json_MarshalIndent w \<lparr>DocCapabilities = fst (snd (getCapabilities w)),
                DocNamespace = ns, DocReleaseName = release_name (LabelSelector opts)\<rparr> = Inr b"
    by (simp add: ok [OF n] caps_stage_written [OF g j])
  have stop: "snd ?run = Some e \<and> Call_ServerVersion \<notin> set (fst ?run)
      \<and> (\<forall>b'. Call_WriteFile (Join outDir ''caps.json'') b' \<notin> set (fst ?run))"
    if f: "snd (types_loop w ns opts outDir ?entries) = Some e"
  proof -
    from f have "types_loop w ns opts outDir ?entries
                   = (fst (types_loop w ns opts outDir ?entries), Some e)"
      by (simp add: prod_eq_iff)
    from ListAll_enumeration_error [OF assms this] enum show ?thesis by simp
  qed
  from ok once written stop show ?thesis by blast
qed

text \<open>
  In the example cluster the run ends with the write of \<open>caps.json\<close>; with a list error
  outside the tolerated ones it returns the error and never asks for the server version.
\<close>

theorem capabilities_after_enumeration_witness:
  "MkdirAll example_world ''out'' = None
   \<and> snd (types_loop example_world ''default'' example_opts ''out''
            (range_entries (resourceClients example_scanner) [''pods''])) = None
   \<and> count_list (fst (ListAll example_world example_scanner [''pods''] ''default'' example_opts ''out''))
        Call_ServerVersion = 1
   \<and> last (fst (ListAll example_world example_scanner [''pods''] ''default'' example_opts ''out''))
       = Call_WriteFile (Join ''out'' ''caps.json'') ''release myapp''
   \<and> snd (types_loop (example_world\<lparr>Do := (\<lambda>req. \<lparr>Err = Some forbidden, Items = []\<rparr>)\<rparr>)
            ''default'' example_opts ''out''
            (range_entries (resourceClients example_scanner) [''pods'']))
       = Some (Listing ''pods'' forbidden)
   \<and> snd (ListAll (example_world\<lparr>Do := (\<lambda>req. \<lparr>Err = Some forbidden, Items = []\<rparr>)\<rparr>)
            example_scanner [''pods''] ''default'' example_opts ''out'')
       = Some (Listing ''pods'' forbidden)
   \<and> Call_ServerVersion
        \<notin> set (fst (ListAll (example_world\<lparr>Do := (\<lambda>req. \<lparr>Err = Some forbidden, Items = []\<rparr>)\<rparr>)
                        example_scanner [''pods''] ''default'' example_opts ''out''))"
proof -
  let ?w = "example_world\<lparr>Do := (\<lambda>req. \<lparr>Err = Some forbidden, Items = []\<rparr>)\<rparr>"
  have r: "range_entries (resourceClients example_scanner) [''pods''] = [(''pods'', core_client)]"
    by (simp add: example_scanner_def range_entries_def List.map_filter_def)
  have t: "snd (types_loop example_world ''default'' example_opts ''out''
                 (range_entries (resourceClients example_scanner) [''pods''])) = None"
    by (simp add: r type_body_def type_items_def Let_def example_world_def)
  have g: "snd (snd (getCapabilities example_world)) = None"
    by (simp add: getCapabilities_def helm_stage_def helm_ls_def helm_version_def Let_def
        example_world_def)
  have j: "json_MarshalIndent example_world
             \<lparr>DocCapabilities = fst (snd (getCapabilities example_world)),
              DocNamespace = ''default'', DocReleaseName = release_name (LabelSelector example_opts)\<rparr>
           = Inr ''release myapp''"
    by (simp add: example_world_def example_opts_def release_name_def match_here_def)
  have m: "MkdirAll example_world ''out'' = None"
    by (simp add: example_world_def)
  have m': "MkdirAll ?w ''out'' = None"
    by (simp add: example_world_def)
  have e: "Err (Do ?w (list_request ''default'' example_opts ''pods'' core_client)) = Some forbidden"
    by (simp add: example_world_def)
  have f: "list_error_fatal core_client forbidden"
    by (simp add: list_error_fatal_def forbidden_def)
  have t': "snd (types_loop ?w ''default'' example_opts ''out''
                 (range_entries (resourceClients example_scanner) [''pods'']))
              = Some (Listing ''pods'' forbidden)"
    by (simp add: r type_body_fatal [OF e f])
  from capabilities_after_enumeration [OF m, of "''default''" example_opts example_scanner
      "[''pods'']" "''release myapp''"] t g j
  have 1: "count_list (fst (ListAll example_world example_scanner [''pods''] ''default''
                              example_opts ''out'')) Call_ServerVersion = 1
     \<and> last (fst (ListAll example_world example_scanner [''pods''] ''default'' example_opts ''out''))
         = Call_WriteFile (Join ''out'' ''caps.json'') ''release myapp''"
    by blast
  from capabilities_after_enumeration [OF m', where ns = "''default''" and opts = example_opts
      and s = example_scanner and order = "[''pods'']" and e = "Listing ''pods'' forbidden"] t'
  have 2: "snd (ListAll ?w example_scanner [''pods''] ''default'' example_opts ''out'')
       = Some (Listing ''pods'' forbidden)
   \<and> Call_ServerVersion
        \<notin> set (fst (ListAll ?w example_scanner [''pods''] ''default'' example_opts ''out''))"
    by blast
  from m t 1 t' 2 show ?thesis by (intro conjI) blast+
qed

text \<open>
  Claim C5 as stated fails: with a list error outside the tolerated ones, the run makes
  two calls and returns the listing error, although the capabilities stage would have
  written \<open>caps.json\<close> in this cluster.
\<close>

theorem capabilities_skipped_counterexample:
  "ListAll (example_world\<lparr>Do := (\<lambda>req. \<lparr>Err = Some forbidden, Items = []\<rparr>)\<rparr>)
      example_scanner [''pods''] ''default'' example_opts ''out''
     = ([Call_MkdirAll ''out'', Call_Do (list_request ''default'' example_opts ''pods'' core_client)],
        Some (Listing ''pods'' forbidden))
   \<and> caps_stage (example_world\<lparr>Do := (\<lambda>req. \<lparr>Err = Some forbidden, Items = []\<rparr>)\<rparr>)
      ''default'' example_opts ''out''
     = ([Call_ServerVersion, Call_ServerGroups, Call_Run [''helm'', ''ls''], Call_Run version_args,
         Call_WriteFile (Join ''out'' ''caps.json'') ''release myapp''], None)"
proof -
  let ?w = "example_world\<lparr>Do := (\<lambda>req. \<lparr>Err = Some forbidden, Items = []\<rparr>)\<rparr>"
  have r: "range_entries (resourceClients example_scanner) [''pods''] = [(''pods'', core_client)]"
    by (simp add: example_scanner_def range_entries_def List.map_filter_def)
  have e: "Err (Do ?w (list_request ''default'' example_opts ''pods'' core_client)) = Some forbidden"
    by (simp add: example_world_def)
  have f: "list_error_fatal core_client forbidden"
    by (simp add: list_error_fatal_def forbidden_def)
  have "types_loop ?w ''default'' example_opts ''out''
          (range_entries (resourceClients example_scanner) [''pods''])
        = ([Call_Do (list_request ''default'' example_opts ''pods'' core_client)],
           Some (Listing ''pods'' forbidden))"
    by (simp add: r type_body_fatal [OF e f])
  from ListAll_enumeration_error [OF _ this]
  have 1: "ListAll ?w example_scanner [''pods''] ''default'' example_opts ''out''
     = ([Call_MkdirAll ''out'', Call_Do (list_request ''default'' example_opts ''pods'' core_client)],
        Some (Listing ''pods'' forbidden))"
    by (simp add: example_world_def)
  have 2: "caps_stage ?w ''default'' example_opts ''out''
     = ([Call_ServerVersion, Call_ServerGroups, Call_Run [''helm'', ''ls''], Call_Run version_args,
         Call_WriteFile (Join ''out'' ''caps.json'') ''release myapp''], None)"
    by (simp add: caps_stage_def getCapabilities_def helm_stage_def helm_ls_def helm_version_def
        Let_def example_world_def example_opts_def release_name_def match_here_def)
  from 1 2 show ?thesis by simp
qed

subsection \<open>The release name\<close>

text \<open>
  Claim C6. The selector \<open>release=myapp,tier=web\<close> gives the release name \<open>myapp\<close>. A
  selector in which \<open>release=\<close> does not occur gives the empty release name. In general,
  when the first occurrence of \<open>release=\<close> is followed by a value without comma and
  newline and then by a comma or the end of the selector, the release name is that value.
\<close>

theorem release_name_parse:
  "release_name ''release=myapp,tier=web'' = ''myapp''
   \<and> ((\<forall>pre post. selector \<noteq> pre @ ''release='' @ post) \<longrightarrow> release_name selector = [])
   \<and> (selector = pre @ ''release='' @ v @ rest
        \<and> (\<forall>i<length pre. take 8 (drop i selector) \<noteq> ''release='')
        \<and> CHR '','' \<notin> set v \<and> CHR 0x0A \<notin> set v
        \<and> (rest = [] \<or> (\<exists>rest'. rest = CHR '','' # rest')) \<longrightarrow>
      release_name selector = v)"
proof -
  have 1: "release_name ''release=myapp,tier=web'' = ''myapp''"
    by (simp add: release_name_def match_here_def)
  have 2: "release_name selector = []" if "\<forall>pre post. selector \<noteq> pre @ ''release='' @ post"
    using FindStringSubmatch_no_token [OF that] by (simp add: release_name_def)
  have 3: "release_name selector = v"
    if s: "selector = pre @ ''release='' @ v @ rest"
      and p: "\<forall>i<length pre. take 8 (drop i selector) \<noteq> ''release=''"
      and v: "CHR '','' \<notin> set v" "CHR 0x0A \<notin> set v"
      and r: "rest = [] \<or> (\<exists>rest'. rest = CHR '','' # rest')"
  proof -
    from match_here_value [OF v r] obtain t
      where "match_here (''release='' @ v @ rest) = Some [''release='' @ v @ t, v, t]" by blast
    then have "FindStringSubmatch (''release='' @ v @ rest) = [''release='' @ v @ t, v, t]"
      by (rule FindStringSubmatch_match)
    moreover from p have "FindStringSubmatch (pre @ ''release='' @ v @ rest)
        = FindStringSubmatch (''release='' @ v @ rest)"
      unfolding s by (rule FindStringSubmatch_skip)
    ultimately show ?thesis by (simp add: release_name_def s)
  qed
  from 1 2 3 show ?thesis by blast
qed

text \<open>
  A selector without the token, one whose value ends the selector, and one whose token is
  inside another label's value.
\<close>

theorem release_name_parse_witness:
  "release_name ''tier=web'' = [] \<and> release_name ''tier=web,release=my-app'' = ''my-app''
   \<and> release_name ''app=release=1,2'' = ''1''"
proof -
  have n: "\<forall>pre post. ''tier=web'' \<noteq> pre @ ''release='' @ post"
  proof (intro allI notI)
    fix pre post assume "''tier=web'' = pre @ ''release='' @ post"
    then have "set ''tier=web'' = set (pre @ ''release='' @ post)" by (rule arg_cong)
    then have "CHR ''l'' \<in> set ''tier=web''" by simp
    then show False by simp
  qed
  have "list_all (\<lambda>i. take 8 (drop i ''tier=web,release=my-app'') \<noteq> ''release='') [0..<9]"
    by code_simp
  then have p: "\<forall>i<length ''tier=web,''. take 8 (drop i ''tier=web,release=my-app'') \<noteq> ''release=''"
    by (simp add: list_all_iff)
  have "list_all (\<lambda>i. take 8 (drop i ''app=release=1,2'') \<noteq> ''release='') [0..<4]"
    by code_simp
  then have q: "\<forall>i<length ''app=''. take 8 (drop i ''app=release=1,2'') \<noteq> ''release=''"
    by (simp add: list_all_iff)
  from release_name_parse [of "''tier=web''" "[]" "[]" "[]"] n
  have 1: "release_name ''tier=web'' = []" by blast
  from release_name_parse [of "''tier=web,release=my-app''" "''tier=web,''" "''my-app''" "[]"] p
  have 2: "release_name ''tier=web,release=my-app'' = ''my-app''" by simp
  from release_name_parse [of "''app=release=1,2''" "''app=''" "''1''" "'',2''"] q
  have 3: "release_name ''app=release=1,2'' = ''1''" by simp
  from 1 2 3 show ?thesis by simp
qed

subsection \<open>The file name\<close>

text \<open>
  Claim C7. Every file the loop body writes for an item is named
  \<open>scanned-\<close>, the lowered kind, \<open>-\<close>, the namespace, \<open>-\<close>, the name, \<open>.yaml\<close>, and a
  retained item is written under that name; every file that a run writes, \<open>caps.json\<close>
  apart, has that name for a retrieved item. The pod \<open>web-1\<close> of namespace \<open>default\<close>
  gets \<open>scanned-pod-default-web-1.yaml\<close>; the namespace \<open>default\<close>, which has the empty
  namespace, gets \<open>scanned-namespace--default.yaml\<close>.
\<close>

theorem output_file_name:
  "(\<forall>c\<in>set (fst (item_body w outDir item)). \<exists>y. c = Call_WriteFile
       (Join outDir (''scanned-'' @ ToLower (unicode_ToLower w) (ObjectKind item) @ ''-''
                      @ GetNamespace item @ ''-'' @ GetName item @ ''.yaml'')) y)
   \<and> (\<not> owned_skip item \<and> \<not> secret_skip item \<and> \<not> service_skip item
        \<and> yaml_Marshal w item = Inr y \<longrightarrow>
      fst (item_body w outDir item) = [Call_WriteFile
       (Join outDir (''scanned-'' @ ToLower (unicode_ToLower w) (ObjectKind item) @ ''-''
                      @ GetNamespace item @ ''-'' @ GetName item @ ''.yaml'')) y])
   \<and> (Call_WriteFile p b \<in> set (fst (ListAll w s order ns opts outDir)) \<longrightarrow>
        p = Join outDir ''caps.json''
        \<or> (\<exists>name client item'.
              (name, client) \<in> set (range_entries (resourceClients s) order)
              \<and> item' \<in> set (Items (Do w (list_request ns opts name client)))
              \<and> p = Join outDir (''scanned-'' @ ToLower (unicode_ToLower w) (ObjectKind item') @ ''-''
                      @ GetNamespace item' @ ''-'' @ GetName item' @ ''.yaml'')))
   \<and> item_key w \<lparr>ObjectKind = ''Pod'', GetNamespace = ''default'', GetName = ''web-1'',
                  GetLabels = ls, GetAnnotations = as, GetOwnerReferences = os\<rparr>
       = ''scanned-pod-default-web-1.yaml''
   \<and> item_key w \<lparr>ObjectKind = ''Namespace'', GetNamespace = [], GetName = ''default'',
                  GetLabels = ls, GetAnnotations = as, GetOwnerReferences = os\<rparr>
       = ''scanned-namespace--default.yaml''"
proof -
  have "\<exists>y. c = Call_WriteFile (Join outDir (item_key w item)) y"
    if "c \<in> set (fst (item_body w outDir item))" for c
    using item_body_calls [OF that] by blast
  moreover have "fst (item_body w outDir item) = [Call_WriteFile (Join outDir (item_key w item)) y]"
    if "\<not> owned_skip item \<and> \<not> secret_skip item \<and> \<not> service_skip item
        \<and> yaml_Marshal w item = Inr y"
    using that by (simp add: item_body_written)
  moreover have "p = Join outDir ''caps.json''
        \<or> (\<exists>name client item'.
              (name, client) \<in> set (range_entries (resourceClients s) order)
              \<and> item' \<in> set (Items (Do w (list_request ns opts name client)))
              \<and> p = Join outDir (item_key w item'))"
    if "Call_WriteFile p b \<in> set (fst (ListAll w s order ns opts outDir))"
    using ListAll_writes [OF that] by blast
  moreover have "item_key w \<lparr>ObjectKind = ''Pod'', GetNamespace = ''default'', GetName = ''web-1'',
                  GetLabels = ls, GetAnnotations = as, GetOwnerReferences = os\<rparr>
       = ''scanned-pod-default-web-1.yaml''"
    by (simp add: item_key_def lower_example)
  moreover have "item_key w \<lparr>ObjectKind = ''Namespace'', GetNamespace = [], GetName = ''default'',
                  GetLabels = ls, GetAnnotations = as, GetOwnerReferences = os\<rparr>
       = ''scanned-namespace--default.yaml''"
    by (simp add: item_key_def lower_example)
  ultimately show ?thesis unfolding item_key_def by blast
qed

text \<open>A service without the provisioner label is retained and written under its key.\<close>

theorem output_file_name_witness:
  "\<not> owned_skip (gluster_service\<lparr>GetLabels := Map.empty\<rparr>)
   \<and> \<not> secret_skip (gluster_service\<lparr>GetLabels := Map.empty\<rparr>)
   \<and> \<not> service_skip (gluster_service\<lparr>GetLabels := Map.empty\<rparr>)
   \<and> yaml_Marshal mixed_world (gluster_service\<lparr>GetLabels := Map.empty\<rparr>)
       = Inr ''name: glusterfs-dynamic-claim''
   \<and> fst (item_body mixed_world ''out'' (gluster_service\<lparr>GetLabels := Map.empty\<rparr>))
       = [Call_WriteFile (Join ''out'' ''scanned-service-default-glusterfs-dynamic-claim.yaml'')
            ''name: glusterfs-dynamic-claim'']
   \<and> Call_WriteFile (Join ''out'' ''scanned-service-default-glusterfs-dynamic-claim.yaml'')
         ''name: glusterfs-dynamic-claim''
        \<in> set (fst (ListAll mixed_world example_scanner [''pods''] ''default'' example_opts ''out''))
   \<and> (\<exists>name client item'.
         (name, client) \<in> set (range_entries (resourceClients example_scanner) [''pods''])
         \<and> item' \<in> set (Items (Do mixed_world (list_request ''default'' example_opts name client)))
         \<and> Join ''out'' ''scanned-service-default-glusterfs-dynamic-claim.yaml''
             = Join ''out'' (''scanned-'' @ ToLower (unicode_ToLower mixed_world) (ObjectKind item')
                 @ ''-'' @ GetNamespace item' @ ''-'' @ GetName item' @ ''.yaml''))"
proof -
  let ?item = "gluster_service\<lparr>GetLabels := Map.empty\<rparr>"
  let ?run = "ListAll mixed_world example_scanner [''pods''] ''default'' example_opts ''out''"
  let ?p = "Join ''out'' ''scanned-service-default-glusterfs-dynamic-claim.yaml''"
  have p1: "\<not> owned_skip ?item" and p2: "\<not> secret_skip ?item" and p3: "\<not> service_skip ?item"
    by (simp_all add: gluster_service_def owned_skip_def ownedKindsToSkip_def secret_skip_def
        service_skip_def index_def)
  have m: "yaml_Marshal mixed_world ?item = Inr ''name: glusterfs-dynamic-claim''"
    by (simp add: mixed_marshal gluster_service_def)
  have k: "''scanned-'' @ ToLower (unicode_ToLower mixed_world) (ObjectKind ?item) @ ''-''
              @ GetNamespace ?item @ ''-'' @ GetName ?item @ ''.yaml''
           = ''scanned-service-default-glusterfs-dynamic-claim.yaml''"
    using mixed_key(3) by (simp only: item_key_def)
  have w: "Call_WriteFile ?p ''name: glusterfs-dynamic-claim'' \<in> set (fst ?run)"
    by (simp add: mixed_run)
  have c: "?p \<noteq> Join ''out'' ''caps.json''" by simp
  from p1 p2 p3 m
  have h: "\<not> owned_skip ?item \<and> \<not> secret_skip ?item \<and> \<not> service_skip ?item
             \<and> yaml_Marshal mixed_world ?item = Inr ''name: glusterfs-dynamic-claim''"
    by (intro conjI)
  note body = output_file_name [where w = mixed_world and outDir = "''out''" and item = ?item
      and y = "''name: glusterfs-dynamic-claim''", THEN conjunct2, THEN conjunct1, THEN mp, OF h]
  then have 1: "fst (item_body mixed_world ''out'' ?item)
          = [Call_WriteFile ?p ''name: glusterfs-dynamic-claim'']"
    by (simp only: k)
  note sound = output_file_name [where w = mixed_world and outDir = "''out''"
      and s = example_scanner and order = "[''pods'']" and ns = "''default''"
      and opts = example_opts and p = ?p and b = "''name: glusterfs-dynamic-claim''",
      THEN conjunct2, THEN conjunct2, THEN conjunct1, THEN mp, OF w]
  from sound have 2: "\<exists>name client item'.
         (name, client) \<in> set (range_entries (resourceClients example_scanner) [''pods''])
         \<and> item' \<in> set (Items (Do mixed_world (list_request ''default'' example_opts name client)))
         \<and> ?p = Join ''out'' (''scanned-'' @ ToLower (unicode_ToLower mixed_world) (ObjectKind item')
                 @ ''-'' @ GetNamespace item' @ ''-'' @ GetName item' @ ''.yaml'')"
  proof
    assume "?p = Join ''out'' ''caps.json''"
    with c show ?thesis by (rule notE)
  qed
  show ?thesis by (intro conjI) fact+
qed

subsection \<open>Secrets and services\<close>

text \<open>
  Claim C8. For a Secret whose annotation \<open>kubernetes.io/service-account.uid\<close> is not
  empty the loop body makes no call; for the same Secret without that annotation it
  makes the call that writes its file, once its YAML was created, and a run that returns
  no error and retrieved a Secret without the annotation has written it. For a Service
  whose label \<open>gluster.kubernetes.io/provisioned-for-pvc\<close> is not empty the loop body
  makes no call. Every file that a run writes, \<open>caps.json\<close> apart, is that of a retrieved
  item that is neither such a Secret nor such a Service.
\<close>

theorem secret_and_service_filters:
  "(ObjectKind item = ''Secret''
      \<and> index (GetAnnotations item) ''kubernetes.io/service-account.uid'' \<noteq> [] \<longrightarrow>
        fst (item_body w outDir item) = [])
   \<and> (ObjectKind item = ''Secret''
      \<and> yaml_Marshal w (item\<lparr>GetAnnotations :=
            (GetAnnotations item)(''kubernetes.io/service-account.uid'' := None)\<rparr>) = Inr y \<longrightarrow>
        fst (item_body w outDir (item\<lparr>GetAnnotations :=
            (GetAnnotations item)(''kubernetes.io/service-account.uid'' := None)\<rparr>))
          = [Call_WriteFile (Join outDir (item_key w item)) y])
   \<and> (ObjectKind item = ''Service''
      \<and> index (GetLabels item) ''gluster.kubernetes.io/provisioned-for-pvc'' \<noteq> [] \<longrightarrow>
        fst (item_body w outDir item) = [])
   \<and> (snd (ListAll w s order ns opts outDir) = None
        \<and> (name, client) \<in> set (range_entries (resourceClients s) order)
        \<and> item \<in> set (Items (Do w (list_request ns opts name client)))
        \<and> ObjectKind item = ''Secret''
        \<and> index (GetAnnotations item) ''kubernetes.io/service-account.uid'' = [] \<longrightarrow>
      (\<exists>y'. yaml_Marshal w item = Inr y'
         \<and> Call_WriteFile (Join outDir (item_key w item)) y'
              \<in> set (fst (ListAll w s order ns opts outDir))))
   \<and> (Call_WriteFile p b \<in> set (fst (ListAll w s order ns opts outDir)) \<longrightarrow>
        p = Join outDir ''caps.json''
        \<or> (\<exists>name client item'.
              (name, client) \<in> set (range_entries (resourceClients s) order)
              \<and> item' \<in> set (Items (Do w (list_request ns opts name client)))
              \<and> p = Join outDir (item_key w item') \<and> yaml_Marshal w item' = Inr b
              \<and> \<not> (ObjectKind item' = ''Secret''
                     \<and> index (GetAnnotations item') ''kubernetes.io/service-account.uid'' \<noteq> [])
              \<and> \<not> (ObjectKind item' = ''Service''
                     \<and> index (GetLabels item') ''gluster.kubernetes.io/provisioned-for-pvc''
                           \<noteq> [])))"
proof -
  let ?bare = "item\<lparr>GetAnnotations :=
            (GetAnnotations item)(''kubernetes.io/service-account.uid'' := None)\<rparr>"
  have "fst (item_body w outDir item) = []"
    if "ObjectKind item = ''Secret''
      \<and> index (GetAnnotations item) ''kubernetes.io/service-account.uid'' \<noteq> []"
  proof -
    from that have "secret_skip item" by (simp add: secret_skip_def)
    then show ?thesis by (simp add: item_body_skipped)
  qed
  moreover have "fst (item_body w outDir ?bare) = [Call_WriteFile (Join outDir (item_key w item)) y]"
    if "ObjectKind item = ''Secret'' \<and> yaml_Marshal w ?bare = Inr y"
  proof -
    from that have k: "ObjectKind ?bare = ''Secret''" by simp
    have "\<not> secret_skip ?bare" by (simp add: secret_skip_def index_def)
    moreover have "item_key w ?bare = item_key w item" by (simp add: item_key_def)
    ultimately show ?thesis
      using that secret_not_owned_service [OF k] item_body_written [of w ?bare y outDir]
      by simp
  qed
  moreover have "fst (item_body w outDir item) = []"
    if "ObjectKind item = ''Service''
      \<and> index (GetLabels item) ''gluster.kubernetes.io/provisioned-for-pvc'' \<noteq> []"
  proof -
    from that have "service_skip item" by (simp add: service_skip_def)
    then show ?thesis by (simp add: item_body_skipped)
  qed
  moreover have "\<exists>y'. yaml_Marshal w item = Inr y'
         \<and> Call_WriteFile (Join outDir (item_key w item)) y'
              \<in> set (fst (ListAll w s order ns opts outDir))"
    if r: "snd (ListAll w s order ns opts outDir) = None
        \<and> (name, client) \<in> set (range_entries (resourceClients s) order)
        \<and> item \<in> set (Items (Do w (list_request ns opts name client)))
        \<and> ObjectKind item = ''Secret''
        \<and> index (GetAnnotations item) ''kubernetes.io/service-account.uid'' = []"
  proof -
    from r have k: "ObjectKind item = ''Secret''" by simp
    from r have "\<not> secret_skip item" by (simp add: secret_skip_def)
    with r secret_not_owned_service [OF k]
      ListAll_written [of w s order ns opts outDir name client item]
    show ?thesis by blast
  qed
  moreover have "p = Join outDir ''caps.json''
        \<or> (\<exists>name client item'.
              (name, client) \<in> set (range_entries (resourceClients s) order)
              \<and> item' \<in> set (Items (Do w (list_request ns opts name client)))
              \<and> p = Join outDir (item_key w item') \<and> yaml_Marshal w item' = Inr b
              \<and> \<not> (ObjectKind item' = ''Secret''
                     \<and> index (GetAnnotations item') ''kubernetes.io/service-account.uid'' \<noteq> [])
              \<and> \<not> (ObjectKind item' = ''Service''
                     \<and> index (GetLabels item') ''gluster.kubernetes.io/provisioned-for-pvc''
                           \<noteq> []))"
    if "Call_WriteFile p b \<in> set (fst (ListAll w s order ns opts outDir))"
    using ListAll_writes [OF that] by (fastforce simp: secret_skip_def service_skip_def)
  ultimately show ?thesis by blast
qed

text \<open>
  The token secret of a service account and a service provisioned for a volume claim are
  not written; the secret without the annotation is.
\<close>

theorem secret_and_service_filters_witness:
  "ObjectKind token_secret = ''Secret''
   \<and> index (GetAnnotations token_secret) ''kubernetes.io/service-account.uid'' \<noteq> []
   \<and> fst (item_body mixed_world ''out'' token_secret) = []
   \<and> yaml_Marshal mixed_world (token_secret\<lparr>GetAnnotations :=
         (GetAnnotations token_secret)(''kubernetes.io/service-account.uid'' := None)\<rparr>)
       = Inr ''name: default-token''
   \<and> fst (item_body mixed_world ''out'' (token_secret\<lparr>GetAnnotations :=
         (GetAnnotations token_secret)(''kubernetes.io/service-account.uid'' := None)\<rparr>))
       = [Call_WriteFile (Join ''out'' (item_key mixed_world token_secret)) ''name: default-token'']
   \<and> item_key mixed_world token_secret = ''scanned-secret-default-default-token.yaml''
   \<and> ObjectKind gluster_service = ''Service''
   \<and> index (GetLabels gluster_service) ''gluster.kubernetes.io/provisioned-for-pvc'' \<noteq> []
   \<and> fst (item_body mixed_world ''out'' gluster_service) = []
   \<and> snd (ListAll mixed_world example_scanner [''pods''] ''default'' example_opts ''out'') = None
   \<and> (\<exists>y'. yaml_Marshal mixed_world (token_secret\<lparr>GetAnnotations := Map.empty\<rparr>) = Inr y'
         \<and> Call_WriteFile
              (Join ''out'' (item_key mixed_world (token_secret\<lparr>GetAnnotations := Map.empty\<rparr>))) y'
            \<in> set (fst (ListAll mixed_world example_scanner [''pods''] ''default'' example_opts
                           ''out'')))
   \<and> Call_WriteFile (Join ''out'' ''scanned-secret-default-default-token.yaml'')
         ''name: default-token''
        \<in> set (fst (ListAll mixed_world example_scanner [''pods''] ''default'' example_opts ''out''))
   \<and> (\<exists>name client item'.
         (name, client) \<in> set (range_entries (resourceClients example_scanner) [''pods''])
         \<and> item' \<in> set (Items (Do mixed_world (list_request ''default'' example_opts name client)))
         \<and> Join ''out'' ''scanned-secret-default-default-token.yaml''
             = Join ''out'' (item_key mixed_world item')
         \<and> yaml_Marshal mixed_world item' = Inr ''name: default-token''
         \<and> \<not> (ObjectKind item' = ''Secret''
                \<and> index (GetAnnotations item') ''kubernetes.io/service-account.uid'' \<noteq> [])
         \<and> \<not> (ObjectKind item' = ''Service''
                \<and> index (GetLabels item') ''gluster.kubernetes.io/provisioned-for-pvc'' \<noteq> []))"
proof -
  let ?uid = "''kubernetes.io/service-account.uid''"
  let ?removed = "token_secret\<lparr>GetAnnotations := (GetAnnotations token_secret)(?uid := None)\<rparr>"
  let ?bare = "token_secret\<lparr>GetAnnotations := Map.empty\<rparr>"
  let ?run = "ListAll mixed_world example_scanner [''pods''] ''default'' example_opts ''out''"
  let ?p = "Join ''out'' ''scanned-secret-default-default-token.yaml''"
  have t1: "ObjectKind token_secret = ''Secret''"
    and t2: "index (GetAnnotations token_secret) ?uid \<noteq> []"
    by (simp_all add: token_secret_def index_def)
  have g1: "ObjectKind gluster_service = ''Service''"
    and g2: "index (GetLabels gluster_service) ''gluster.kubernetes.io/provisioned-for-pvc'' \<noteq> []"
    by (simp_all add: gluster_service_def index_def)
  have m: "yaml_Marshal mixed_world ?removed = Inr ''name: default-token''"
    by (simp add: token_secret_def mixed_marshal)
  note k = mixed_key(2)
  have b1: "ObjectKind ?bare = ''Secret''" and b2: "index (GetAnnotations ?bare) ?uid = []"
    by (simp_all add: token_secret_def index_def)
  have r: "snd ?run = None" by (simp add: mixed_run)
  have e: "(''pods'', core_client) \<in> set (range_entries (resourceClients example_scanner) [''pods''])"
    by (simp add: mixed_entries)
  have i: "?bare
        \<in> set (Items (Do mixed_world (list_request ''default'' example_opts ''pods'' core_client)))"
    by (simp add: mixed_items)
  have w: "Call_WriteFile ?p ''name: default-token'' \<in> set (fst ?run)"
    by (simp add: mixed_run)
  have c: "?p \<noteq> Join ''out'' ''caps.json''" by simp
  note 1 = secret_and_service_filters [where item = token_secret and w = mixed_world
      and outDir = "''out''", THEN conjunct1, THEN mp, OF conjI, OF t1 t2]
  note 2 = secret_and_service_filters [where item = token_secret and w = mixed_world
      and outDir = "''out''" and y = "''name: default-token''",
      THEN conjunct2, THEN conjunct1, THEN mp, OF conjI, OF t1 m]
  note 3 = secret_and_service_filters [where item = gluster_service and w = mixed_world
      and outDir = "''out''", THEN conjunct2, THEN conjunct2, THEN conjunct1, THEN mp, OF conjI,
      OF g1 g2]
  from r e i b1 b2
  have h: "snd ?run = None
        \<and> (''pods'', core_client) \<in> set (range_entries (resourceClients example_scanner) [''pods''])
        \<and> ?bare \<in> set (Items (Do mixed_world
                                  (list_request ''default'' example_opts ''pods'' core_client)))
        \<and> ObjectKind ?bare = ''Secret'' \<and> index (GetAnnotations ?bare) ?uid = []"
    by (intro conjI)
  note 4 = secret_and_service_filters [where item = ?bare and w = mixed_world
      and outDir = "''out''" and s = example_scanner and order = "[''pods'']"
      and ns = "''default''" and opts = example_opts and name = "''pods''"
      and client = core_client, THEN conjunct2, THEN conjunct2, THEN conjunct2, THEN conjunct1,
      THEN mp, OF h]
  note sound = secret_and_service_filters [where w = mixed_world and outDir = "''out''"
      and s = example_scanner and order = "[''pods'']" and ns = "''default''"
      and opts = example_opts and p = ?p and b = "''name: default-token''",
      THEN conjunct2, THEN conjunct2, THEN conjunct2, THEN conjunct2, THEN mp, OF w]
  from sound have 5: "\<exists>name client item'.
         (name, client) \<in> set (range_entries (resourceClients example_scanner) [''pods''])
         \<and> item' \<in> set (Items (Do mixed_world (list_request ''default'' example_opts name client)))
         \<and> ?p = Join ''out'' (item_key mixed_world item')
         \<and> yaml_Marshal mixed_world item' = Inr ''name: default-token''
         \<and> \<not> (ObjectKind item' = ''Secret'' \<and> index (GetAnnotations item') ?uid \<noteq> [])
         \<and> \<not> (ObjectKind item' = ''Service''
                \<and> index (GetLabels item') ''gluster.kubernetes.io/provisioned-for-pvc'' \<noteq> [])"
  proof
    assume "?p = Join ''out'' ''caps.json''"
    with c show ?thesis by (rule notE)
  qed
  show ?thesis by (intro conjI) fact+
qed

subsection \<open>What the catalog leaves out\<close>

text \<open>
  Claim C9. An entry of the catalog has a name without path separator and outside the
  seeded skip set (componentstatuses, controllerrevisions, events, endpoints,
  packagemanifests), in every mode. Its client is that of the visited resource that
  claimed the name, and in cluster-wide-only mode that resource is not namespaced.
\<close>

theorem catalog_exclusions:
  assumes "getAllResources w s = Inr catalog" and "catalog name = Some c"
  shows "CHR ''/'' \<notin> set name
     \<and> name \<notin> {''componentstatuses'', ''controllerrevisions'', ''events'', ''endpoints'',
                 ''packagemanifests''}
     \<and> (\<exists>r. first_claim w s (fst (ServerPreferredResources w)) name = Some (c, r)
            \<and> (c, r) \<in> set (discoveries w s (fst (ServerPreferredResources w)))
            \<and> Name r = name
            \<and> (clusterWideOnly s \<longrightarrow> \<not> Namespaced r))"
proof -
  let ?vs = "fst (ServerPreferredResources w)"
  from assms(1)
  have "catalog = snd (groups_loop w s ?vs (skip_init, Map.empty))"
    by (simp add: getAllResources_catalog)
  with assms(2) have "map_option fst (first_claim w s ?vs name) = Some c"
    by (simp only: catalog_first_claim)
  then obtain r where f: "first_claim w s ?vs name = Some (c, r)" by auto
  then have "(c, r) \<in> set (discoveries w s ?vs)" and "Name r = name"
    and "eligible (clusterWideOnly s) r"
    by (auto simp: first_claim_def find_Some_iff in_set_conv_nth)
  with f show ?thesis by (auto simp: eligible_def skip_init_def New_def)
qed

text \<open>
  In cluster-wide-only mode the entry \<open>foos\<close> comes from the cluster-wide resource of the
  second group.
\<close>

theorem catalog_exclusions_witness:
  "getAllResources (example_world\<lparr>ServerPreferredResources := (two_groups, None)\<rparr>)
      (example_scanner\<lparr>clusterWideOnly := True\<rparr>)
     = Inr [''bars'' \<mapsto> group_a, ''foos'' \<mapsto> group_b]
   \<and> [''bars'' \<mapsto> group_a, ''foos'' \<mapsto> group_b] ''foos'' = Some group_b
   \<and> clusterWideOnly (example_scanner\<lparr>clusterWideOnly := True\<rparr>)
   \<and> (\<exists>r. first_claim (example_world\<lparr>ServerPreferredResources := (two_groups, None)\<rparr>)
             (example_scanner\<lparr>clusterWideOnly := True\<rparr>) two_groups ''foos'' = Some (group_b, r)
          \<and> Name r = ''foos'' \<and> \<not> Namespaced r)"
proof -
  let ?w = "example_world\<lparr>ServerPreferredResources := (two_groups, None)\<rparr>"
  let ?s = "example_scanner\<lparr>clusterWideOnly := True\<rparr>"
  have g: "getAllResources ?w ?s = Inr [''bars'' \<mapsto> group_a, ''foos'' \<mapsto> group_b]"
    by (simp add: catalog_example)
  have c: "[''bars'' \<mapsto> group_a, ''foos'' \<mapsto> group_b] ''foos'' = Some group_b" by simp
  have v: "fst (ServerPreferredResources ?w) = two_groups" by (simp add: example_world_def)
  from catalog_exclusions [OF g c] g c show ?thesis
    unfolding v by auto
qed

subsection \<open>YAML before the filters\<close>

text \<open>
  Claim C10. When the YAML of an item cannot be created, the loop body returns the error
  without a call, whatever the three filters say about the item; a run whose enumeration
  reaches the item returns that error.
\<close>

theorem serialization_precedes_filters:
  assumes "yaml_Marshal w item = Inl err"
  shows "item_body w outDir item = ([], Some (CreatingYAML (item_key w item) err))
     \<and> (MkdirAll w outDir = None
          \<and> range_entries (resourceClients s) order = pre @ (name, client) # post
          \<and> (\<forall>entry\<in>set pre. snd (type_body w ns opts outDir entry) = None)
          \<and> Err (Do w (list_request ns opts name client)) = None
          \<and> Items (Do w (list_request ns opts name client)) = before @ item # after
          \<and> (\<forall>i\<in>set before. snd (item_body w outDir i) = None) \<longrightarrow>
        snd (ListAll w s order ns opts outDir) = Some (CreatingYAML (item_key w item) err))"
proof -
  let ?e = "CreatingYAML (item_key w item) err"
  have body: "item_body w outDir item = ([], Some ?e)"
    using assms by (rule item_body_marshal_error)
  have "snd (ListAll w s order ns opts outDir) = Some ?e"
    if m: "MkdirAll w outDir = None"
      and r: "range_entries (resourceClients s) order = pre @ (name, client) # post"
      and p: "\<forall>entry\<in>set pre. snd (type_body w ns opts outDir entry) = None"
      and l: "Err (Do w (list_request ns opts name client)) = None"
      and i: "Items (Do w (list_request ns opts name client)) = before @ item # after"
      and b: "\<forall>i\<in>set before. snd (item_body w outDir i) = None"
  proof -
    from items_loop_stop [OF b body] i
    have "snd (items_loop w outDir (Items (Do w (list_request ns opts name client)))) = Some ?e"
      by simp
    with type_body_listed [OF l]
    have "type_body w ns opts outDir (name, client) =
            (fst (type_body w ns opts outDir (name, client)), Some ?e)"
      by simp
    from types_loop_stop [OF p this] r
    have "types_loop w ns opts outDir (range_entries (resourceClients s) order) =
            (fst (types_loop w ns opts outDir pre) @ fst (type_body w ns opts outDir (name, client)),
             Some ?e)"
      by simp
    from ListAll_enumeration_error [OF m this] show ?thesis by simp
  qed
  with body show ?thesis by blast
qed

text \<open>
  A pod owned by a replica set, which the ownership filter would skip, ends the run when
  its YAML cannot be created.
\<close>

theorem serialization_precedes_filters_witness:
  "yaml_Marshal (example_world\<lparr>Do := (\<lambda>req. \<lparr>Err = None, Items = [owned_pod]\<rparr>),
                               yaml_Marshal := (\<lambda>item. Inl ''unsupported type'')\<rparr>) owned_pod
     = Inl ''unsupported type''
   \<and> owned_skip owned_pod
   \<and> ListAll (example_world\<lparr>Do := (\<lambda>req. \<lparr>Err = None, Items = [owned_pod]\<rparr>),
                             yaml_Marshal := (\<lambda>item. Inl ''unsupported type'')\<rparr>)
        example_scanner [''pods''] ''default'' example_opts ''out''
     = ([Call_MkdirAll ''out'', Call_Do (list_request ''default'' example_opts ''pods'' core_client)],
        Some (CreatingYAML ''scanned-pod-default-web-1.yaml'' ''unsupported type''))"
proof -
  let ?w = "example_world\<lparr>Do := (\<lambda>req. \<lparr>Err = None, Items = [owned_pod]\<rparr>),
                         yaml_Marshal := (\<lambda>item. Inl ''unsupported type'')\<rparr>"
  have m: "yaml_Marshal ?w owned_pod = Inl ''unsupported type''"
    by (simp add: example_world_def)
  have k: "item_key ?w owned_pod = ''scanned-pod-default-web-1.yaml''"
    by (simp add: item_key_def owned_pod_def example_world_def lower_example)
  have o: "owned_skip owned_pod"
    by (simp add: owned_skip_def ownedKindsToSkip_def owned_pod_def New_def Has_def)
  have r: "range_entries (resourceClients example_scanner) [''pods''] = [(''pods'', core_client)]"
    by (simp add: example_scanner_def range_entries_def List.map_filter_def)
  from serialization_precedes_filters [OF m, of "''out''" example_scanner "[''pods'']" "[]"
      "''pods''" core_client "[]" "''default''" example_opts "[]" "[]"] r
  have "snd (ListAll ?w example_scanner [''pods''] ''default'' example_opts ''out'')
          = Some (CreatingYAML ''scanned-pod-default-web-1.yaml'' ''unsupported type'')"
    by (simp add: k) (simp add: example_world_def)
  moreover have "fst (ListAll ?w example_scanner [''pods''] ''default'' example_opts ''out'')
      = [Call_MkdirAll ''out'', Call_Do (list_request ''default'' example_opts ''pods'' core_client)]"
  proof -
    have d: "Do ?w (list_request ''default'' example_opts ''pods'' core_client)
               = \<lparr>Err = None, Items = [owned_pod]\<rparr>"
      by (simp add: example_world_def)
    have "types_loop ?w ''default'' example_opts ''out'' [(''pods'', core_client)]
            = ([Call_Do (list_request ''default'' example_opts ''pods'' core_client)],
               Some (CreatingYAML ''scanned-pod-default-web-1.yaml'' ''unsupported type''))"
      by (simp add: type_body_def type_items_def Let_def d item_body_marshal_error [OF m] k)
    with r have "types_loop ?w ''default'' example_opts ''out''
                   (range_entries (resourceClients example_scanner) [''pods''])
            = ([Call_Do (list_request ''default'' example_opts ''pods'' core_client)],
               Some (CreatingYAML ''scanned-pod-default-web-1.yaml'' ''unsupported type''))"
      by simp
    from ListAll_enumeration_error [OF _ this] show ?thesis by (simp add: example_world_def)
  qed
  ultimately show ?thesis using m o by (simp add: prod_eq_iff)
qed

end
